theory Spec2Isabelle
  imports Complex_Main "HOL-Library.Multiset" "HOL-Library.Log_Nat"
begin

section \<open>Python values and exceptions\<close>

text \<open>
  The service in \<^verbatim>\<open>app.py\<close> is dynamically typed: what a parsed model reply, a request
  body or a column parameter holds is any Python value. A float is the exact value of a
  double (a rational) or one of the three non-finite doubles; \<open>to_double\<close> below rounds a
  number to the nearest double. Text is a sequence of bytes (UTF-8): the blanks and digits
  beyond ASCII that \<^verbatim>\<open>int\<close> and \<^verbatim>\<open>float\<close> also accept are outside the model.
\<close>

datatype pyfloat = Fin rat | PosInf | NegInf | NaN

datatype pyval =
    PNone
  | PBool bool
  | PInt int
  | PFloat pyfloat
  | PStr string
  | PList "pyval list"
  | PDict "(string \<times> pyval) list"

text \<open>
  Every exception the handlers can meet. The last three carry the message of a failure
  reported by an external service (the model backend, PostgreSQL, the spreadsheet API).
\<close>

datatype error =
    JSONDecodeError
  | KeyError string
  | TypeError
  | ValueError
  | OverflowError
  | AttributeError
  | GeminiError string
  | DBError string
  | SheetsError string

definition bindE :: "error + 'a \<Rightarrow> ('a \<Rightarrow> error + 'b) \<Rightarrow> error + 'b" where
  "bindE m f = (case m of Inl e \<Rightarrow> Inl e | Inr x \<Rightarrow> f x)"

section \<open>Dictionaries\<close>

text \<open>
  A \<^verbatim>\<open>dict\<close> with string keys is an association list in insertion order with no key
  twice: \<open>dict_set\<close> is \<^verbatim>\<open>d[k] = v\<close>, \<open>dict_lookup\<close> is the search behind
  \<^verbatim>\<open>d[k]\<close>, \<^verbatim>\<open>d.get(k, default)\<close> and \<^verbatim>\<open>k in d\<close>.
\<close>

fun dict_set :: "(string \<times> pyval) list \<Rightarrow> string \<Rightarrow> pyval \<Rightarrow> (string \<times> pyval) list" where
  "dict_set [] k v = [(k, v)]"
| "dict_set ((k', v') # kvs) k v =
     (if k' = k then (k, v) # kvs else (k', v') # dict_set kvs k v)"

fun dict_lookup :: "(string \<times> pyval) list \<Rightarrow> string \<Rightarrow> pyval option" where
  "dict_lookup [] k = None"
| "dict_lookup ((k', v') # kvs) k = (if k' = k then Some v' else dict_lookup kvs k)"

text \<open>\<^verbatim>\<open>obj.get(key, default)\<close>: only a dict has the method.\<close>

fun py_get :: "pyval \<Rightarrow> string \<Rightarrow> pyval \<Rightarrow> error + pyval" where
  "py_get (PDict kvs) k dflt = Inr (case dict_lookup kvs k of Some v \<Rightarrow> v | None \<Rightarrow> dflt)"
| "py_get _ k dflt = Inl AttributeError"

text \<open>
  \<^verbatim>\<open>obj[key]\<close> with a string key: a dict looks the key up and raises \<^verbatim>\<open>KeyError\<close>
  when it is missing; a string or a list takes integer indices only, and the other values
  are not subscriptable.
\<close>

fun py_getitem :: "pyval \<Rightarrow> string \<Rightarrow> error + pyval" where
  "py_getitem (PDict kvs) k = (case dict_lookup kvs k of Some v \<Rightarrow> Inr v | None \<Rightarrow> Inl (KeyError k))"
| "py_getitem _ k = Inl TypeError"

text \<open>
  \<^verbatim>\<open>for x in obj\<close>: a list yields its items, a dict its keys, a string its characters;
  nothing else is iterable.
\<close>

fun py_iter :: "pyval \<Rightarrow> error + pyval list" where
  "py_iter (PList xs) = Inr xs"
| "py_iter (PDict kvs) = Inr (map (\<lambda>kv. PStr (fst kv)) kvs)"
| "py_iter (PStr s) = Inr (map (\<lambda>c. PStr [c]) s)"
| "py_iter _ = Inl TypeError"

section \<open>Number conversions\<close>

definition is_digit :: "char \<Rightarrow> bool" where
  "is_digit c = (c \<in> set ''0123456789'')"

definition digit_val :: "char \<Rightarrow> nat" where
  "digit_val c =
     (case map_of (zip ''0123456789'' [0, 1, 2, 3, 4, 5, 6, 7, 8, 9]) c of
        Some d \<Rightarrow> d
      | None \<Rightarrow> 0)"

definition digits_val :: "string \<Rightarrow> int" where
  "digits_val ds = foldl (\<lambda>n c. 10 * n + int (digit_val c)) 0 ds"

text \<open>The value \<open>m \<times> 10\<^sup>e\<close> of a decimal numeral with mantissa \<open>m\<close>.\<close>

definition scale10 :: "rat \<Rightarrow> int \<Rightarrow> rat" where
  "scale10 m e = (if 0 \<le> e then m * 10 ^ nat e else m / 10 ^ nat (- e))"

definition scale2 :: "rat \<Rightarrow> int \<Rightarrow> rat" where
  "scale2 m e = (if 0 \<le> e then m * 2 ^ nat e else m / 2 ^ nat (- e))"

text \<open>
  Rounding to the nearest double, ties to even: \<open>binary_exponent a\<close> is the integer part of
  the binary logarithm of a positive \<open>a\<close>; a double has 53 significant bits and no exponent
  below \<open>-1022\<close>, and a result of \<open>2\<^sup>1\<^sup>0\<^sup>2\<^sup>4\<close> or more overflows to an infinity.
\<close>

definition round_half_even :: "rat \<Rightarrow> int" where
  "round_half_even x =
     (let f = \<lfloor>x\<rfloor>; d = x - rat_of_int f
      in if d < 1 / 2 then f else if 1 / 2 < d then f + 1 else if even f then f else f + 1)"

definition binary_exponent :: "rat \<Rightarrow> int" where
  "binary_exponent a =
     (let k = bitlen (fst (quotient_of a)) - bitlen (snd (quotient_of a))
      in if a < scale2 1 k then k - 1 else k)"

definition double_top :: rat where
  "double_top = 2 ^ 1024"

definition to_double :: "rat \<Rightarrow> pyfloat" where
  "to_double r =
     (if r = 0 then Fin 0
      else
        (let a = \<bar>r\<bar>;
             p = max (binary_exponent a) (- 1022) - 52;
             v = scale2 (rat_of_int (round_half_even (scale2 a (- p)))) p
         in if double_top \<le> v then (if r < 0 then NegInf else PosInf)
            else Fin (if r < 0 then - v else v)))"

text \<open>
  The numeral grammar shared by the JSON decoder and \<^verbatim>\<open>float(str)\<close>, after the sign:
  integer digits, an optional fraction, an optional exponent. \<open>split_fraction\<close> and
  \<open>split_exponent\<close> cut such a part off a string and return what follows it.
\<close>

definition split_exponent :: "string \<Rightarrow> (int option \<times> string)" where
  "split_exponent s =
     (case s of
        [] \<Rightarrow> (None, s)
      | c # r \<Rightarrow>
          if c = CHR ''e'' \<or> c = CHR ''E'' then
            (let neg = (r \<noteq> [] \<and> hd r = CHR ''-'');
                 r' = (if r \<noteq> [] \<and> (hd r = CHR ''-'' \<or> hd r = CHR ''+'') then tl r else r);
                 ds = takeWhile is_digit r'
             in if ds = [] then (None, s)
                else (Some (if neg then - digits_val ds else digits_val ds),
                      dropWhile is_digit r'))
          else (None, s))"

definition split_fraction :: "string \<Rightarrow> (string option \<times> string)" where
  "split_fraction s =
     (case s of
        [] \<Rightarrow> (None, s)
      | c # r \<Rightarrow>
          if c = CHR ''.'' \<and> takeWhile is_digit r \<noteq> []
          then (Some (takeWhile is_digit r), dropWhile is_digit r)
          else (None, s))"

text \<open>
  Python lets single underscores group the digits of a numeral passed to \<^verbatim>\<open>int\<close> or
  \<^verbatim>\<open>float\<close>; an underscore anywhere else stays and makes the numeral invalid.
\<close>

fun drop_underscores :: "string \<Rightarrow> string" where
  "drop_underscores (a # b # c # r) =
     (if is_digit a \<and> b = CHR ''_'' \<and> is_digit c then a # drop_underscores (c # r)
      else a # drop_underscores (b # c # r))"
| "drop_underscores s = s"

definition is_space :: "char \<Rightarrow> bool" where
  "is_space c = (c \<in> {CHR '' '', CHR 0x09, CHR 0x0A, CHR 0x0B, CHR 0x0C, CHR 0x0D})"

definition strip :: "string \<Rightarrow> string" where
  "strip s = rev (dropWhile is_space (rev (dropWhile is_space s)))"

definition split_sign :: "string \<Rightarrow> bool \<times> string" where
  "split_sign s =
     (case s of
        [] \<Rightarrow> (False, s)
      | c # r \<Rightarrow> if c = CHR ''-'' then (True, r) else if c = CHR ''+'' then (False, r) else (False, s))"

text \<open>\<^verbatim>\<open>int(s)\<close> for a string: surrounding blanks, a sign, decimal digits.\<close>

definition int_of_str :: "string \<Rightarrow> error + int" where
  "int_of_str s =
     (let (neg, r) = split_sign (strip s); ds = drop_underscores r
      in if ds = [] \<or> \<not> list_all is_digit ds then Inl ValueError
         else Inr (if neg then - digits_val ds else digits_val ds))"

definition lower :: "char \<Rightarrow> char" where
  "lower c = (if c = CHR ''I'' then CHR ''i'' else if c = CHR ''N'' then CHR ''n''
     else if c = CHR ''F'' then CHR ''f'' else if c = CHR ''T'' then CHR ''t''
     else if c = CHR ''Y'' then CHR ''y'' else if c = CHR ''A'' then CHR ''a'' else c)"

text \<open>
  \<^verbatim>\<open>float(s)\<close> for a string: surrounding blanks, a sign, then \<^verbatim>\<open>inf\<close>,
  \<^verbatim>\<open>infinity\<close> or \<^verbatim>\<open>nan\<close> in any case, or digits with an optional point and
  exponent, one digit at least on either side of the point.
\<close>

definition float_of_str :: "string \<Rightarrow> error + pyfloat" where
  "float_of_str s =
     (let (neg, r) = split_sign (strip s); w = map lower r
      in if w = ''inf'' \<or> w = ''infinity'' then Inr (if neg then NegInf else PosInf)
         else if w = ''nan'' then Inr NaN
         else
           (let u = drop_underscores r;
                ip = takeWhile is_digit u; r1 = dropWhile is_digit u;
                pt = (r1 \<noteq> [] \<and> hd r1 = CHR ''.'');
                fp = (if pt then takeWhile is_digit (tl r1) else []);
                r2 = (if pt then dropWhile is_digit (tl r1) else r1);
                (ex, r3) = split_exponent r2;
                m = rat_of_int (digits_val (ip @ fp));
                e = (case ex of None \<Rightarrow> 0 | Some x \<Rightarrow> x) - int (length fp);
                v = scale10 m e
            in if (ip = [] \<and> fp = []) \<or> r3 \<noteq> [] then Inl ValueError
               else Inr (to_double (if neg then - v else v))))"

text \<open>
  \<^verbatim>\<open>int(x)\<close>: an int is itself, a bool is 0 or 1, a float is truncated towards zero
  (\<^verbatim>\<open>ValueError\<close> for nan, \<^verbatim>\<open>OverflowError\<close> for an infinity), a string is
  parsed; \<^verbatim>\<open>None\<close>, a list and a dict raise \<^verbatim>\<open>TypeError\<close>.
\<close>

fun py_int :: "pyval \<Rightarrow> error + int" where
  "py_int (PInt i) = Inr i"
| "py_int (PBool b) = Inr (if b then 1 else 0)"
| "py_int (PFloat (Fin r)) = Inr (if 0 \<le> r then \<lfloor>r\<rfloor> else \<lceil>r\<rceil>)"
| "py_int (PFloat NaN) = Inl ValueError"
| "py_int (PFloat _) = Inl OverflowError"
| "py_int (PStr s) = int_of_str s"
| "py_int _ = Inl TypeError"

text \<open>
  \<^verbatim>\<open>float(x)\<close>, likewise; an int too large for a double raises \<^verbatim>\<open>OverflowError\<close>.
\<close>

fun py_float :: "pyval \<Rightarrow> error + pyfloat" where
  "py_float (PFloat f) = Inr f"
| "py_float (PInt i) =
     (case to_double (rat_of_int i) of
        PosInf \<Rightarrow> Inl OverflowError
      | NegInf \<Rightarrow> Inl OverflowError
      | f \<Rightarrow> Inr f)"
| "py_float (PBool b) = Inr (Fin (if b then 1 else 0))"
| "py_float (PStr s) = float_of_str s"
| "py_float _ = Inl TypeError"

text \<open>
  Python's \<^verbatim>\<open>==\<close>. Numbers (bools, ints and floats) compare by value, and nan is equal to
  nothing, itself included; a number is never equal to a value of another kind; values that
  are not numbers are compared by their structure here, which is what \<^verbatim>\<open>==\<close> gives for
  \<^verbatim>\<open>None\<close> and for strings (the statements apply it to numbers only).
\<close>

definition float_eq :: "pyfloat \<Rightarrow> pyfloat \<Rightarrow> bool" where
  "float_eq a b = (a \<noteq> NaN \<and> b \<noteq> NaN \<and> a = b)"

fun number_of :: "pyval \<Rightarrow> pyfloat option" where
  "number_of (PInt i) = Some (Fin (rat_of_int i))"
| "number_of (PBool b) = Some (Fin (if b then 1 else 0))"
| "number_of (PFloat f) = Some f"
| "number_of _ = None"

definition py_eq :: "pyval \<Rightarrow> pyval \<Rightarrow> bool" where
  "py_eq x y =
     (case (number_of x, number_of y) of
        (Some a, Some b) \<Rightarrow> float_eq a b
      | (None, None) \<Rightarrow> x = y
      | _ \<Rightarrow> False)"

section \<open>The JSON decoder\<close>

text \<open>
  \<^verbatim>\<open>json.loads\<close> is the standard library's decoder; the handlers call it on the model's
  reply. It is modelled as a scanner that cuts the text into tokens and a stack machine
  that assembles the value, both by structural recursion, so that \<open>json_loads\<close> is total:
  every text is either decoded or refused with \<^verbatim>\<open>JSONDecodeError\<close>. The scanner takes
  a maximal run of letters, digits, signs and points as one atom, which must be a whole
  literal or numeral; a string is decoded to its UTF-8 bytes, a \<^verbatim>\<open>\uXXXX\<close> escape unit
  by unit (the decoder joins an escaped surrogate pair into one code point; the model keeps
  the two units).
\<close>

datatype token = TLBrace | TRBrace | TLBrack | TRBrack | TColon | TComma | TStr string | TAtom pyval

definition json_number :: "string \<Rightarrow> pyval option" where
  "json_number s =
     (let neg = (s \<noteq> [] \<and> hd s = CHR ''-'');
          s1 = (if neg then tl s else s);
          ds = takeWhile is_digit s1;
          (fr, r2) = split_fraction (dropWhile is_digit s1);
          (ex, r3) = split_exponent r2
      in if ds = [] \<or> (hd ds = CHR ''0'' \<and> 1 < length ds) \<or> r3 \<noteq> [] then None
         else if fr = None \<and> ex = None
         then Some (PInt (if neg then - digits_val ds else digits_val ds))
         else
           (let fp = (case fr of None \<Rightarrow> [] | Some f \<Rightarrow> f);
                v = scale10 (rat_of_int (digits_val (ds @ fp)))
                      ((case ex of None \<Rightarrow> 0 | Some x \<Rightarrow> x) - int (length fp))
            in Some (PFloat (to_double (if neg then - v else v)))))"

definition json_atom :: "string \<Rightarrow> pyval option" where
  "json_atom s =
     (if s = ''null'' then Some PNone
      else if s = ''true'' then Some (PBool True)
      else if s = ''false'' then Some (PBool False)
      else if s = ''NaN'' then Some (PFloat NaN)
      else if s = ''Infinity'' then Some (PFloat PosInf)
      else if s = ''-Infinity'' then Some (PFloat NegInf)
      else json_number s)"

definition is_alpha :: "char \<Rightarrow> bool" where
  "is_alpha c = (c \<in> set ''abcdefghijklmnopqrstuvwxyzABCDEFGHIJKLMNOPQRSTUVWXYZ'')"

definition is_atom_char :: "char \<Rightarrow> bool" where
  "is_atom_char c = (is_digit c \<or> is_alpha c \<or> c = CHR ''-'' \<or> c = CHR ''+'' \<or> c = CHR ''.'')"

definition is_ws :: "char \<Rightarrow> bool" where
  "is_ws c = (c \<in> {CHR '' '', CHR 0x09, CHR 0x0A, CHR 0x0D})"

definition punct :: "char \<Rightarrow> token option" where
  "punct c =
     (if c = CHR ''{'' then Some TLBrace else if c = CHR ''}'' then Some TRBrace
      else if c = CHR ''['' then Some TLBrack else if c = CHR '']'' then Some TRBrack
      else if c = CHR '':'' then Some TColon else if c = CHR '','' then Some TComma
      else None)"

definition unescape :: "char \<Rightarrow> char option" where
  "unescape c =
     (if c = CHR 0x22 \<or> c = CHR 0x5C \<or> c = CHR ''/'' then Some c
      else if c = CHR ''b'' then Some (CHR 0x08) else if c = CHR ''f'' then Some (CHR 0x0C)
      else if c = CHR ''n'' then Some (CHR 0x0A) else if c = CHR ''r'' then Some (CHR 0x0D)
      else if c = CHR ''t'' then Some (CHR 0x09) else None)"

definition hex_digit :: "char \<Rightarrow> nat option" where
  "hex_digit c =
     (if is_digit c then Some (digit_val c)
      else if c = CHR ''a'' \<or> c = CHR ''A'' then Some 10
      else if c = CHR ''b'' \<or> c = CHR ''B'' then Some 11
      else if c = CHR ''c'' \<or> c = CHR ''C'' then Some 12
      else if c = CHR ''d'' \<or> c = CHR ''D'' then Some 13
      else if c = CHR ''e'' \<or> c = CHR ''E'' then Some 14
      else if c = CHR ''f'' \<or> c = CHR ''F'' then Some 15
      else None)"

definition utf8 :: "nat \<Rightarrow> string" where
  "utf8 n =
     (if n < 128 then [char_of n]
      else if n < 2048 then [char_of (192 + n div 64), char_of (128 + n mod 64)]
      else [char_of (224 + n div 4096), char_of (128 + (n div 64) mod 64), char_of (128 + n mod 64)])"

text \<open>
  The scanner's modes: between tokens, inside an atom, inside a string, after a backslash,
  and inside the four hex digits of a \<^verbatim>\<open>\u\<close> escape (with the code unit read so far and
  the number of digits read). Accumulators are kept reversed.
\<close>

datatype lmode = LOut | LAtom string | LStr string | LEsc string | LUni string nat nat

fun lex_go :: "lmode \<Rightarrow> token list \<Rightarrow> string \<Rightarrow> token list option" where
  "lex_go m ts [] =
     (case m of
        LOut \<Rightarrow> Some (rev ts)
      | LAtom a \<Rightarrow> (case json_atom (rev a) of None \<Rightarrow> None | Some v \<Rightarrow> Some (rev (TAtom v # ts)))
      | _ \<Rightarrow> None)"
| "lex_go m ts (c # cs) =
     (case m of
        LOut \<Rightarrow>
          if is_ws c then lex_go LOut ts cs
          else if c = CHR 0x22 then lex_go (LStr []) ts cs
          else if is_atom_char c then lex_go (LAtom [c]) ts cs
          else (case punct c of None \<Rightarrow> None | Some t \<Rightarrow> lex_go LOut (t # ts) cs)
      | LAtom a \<Rightarrow>
          if is_atom_char c then lex_go (LAtom (c # a)) ts cs
          else
            (case json_atom (rev a) of
               None \<Rightarrow> None
             | Some v \<Rightarrow>
                 if is_ws c then lex_go LOut (TAtom v # ts) cs
                 else if c = CHR 0x22 then lex_go (LStr []) (TAtom v # ts) cs
                 else (case punct c of None \<Rightarrow> None | Some t \<Rightarrow> lex_go LOut (t # TAtom v # ts) cs))
      | LStr s \<Rightarrow>
          if c = CHR 0x22 then lex_go LOut (TStr (rev s) # ts) cs
          else if c = CHR 0x5C then lex_go (LEsc s) ts cs
          else if (of_char c :: nat) < 32 then None
          else lex_go (LStr (c # s)) ts cs
      | LEsc s \<Rightarrow>
          if c = CHR ''u'' then lex_go (LUni s 0 0) ts cs
          else (case unescape c of None \<Rightarrow> None | Some c' \<Rightarrow> lex_go (LStr (c' # s)) ts cs)
      | LUni s n k \<Rightarrow>
          (case hex_digit c of
             None \<Rightarrow> None
           | Some d \<Rightarrow>
               if k = 3 then lex_go (LStr (rev (utf8 (16 * n + d)) @ s)) ts cs
               else lex_go (LUni s (16 * n + d) (Suc k)) ts cs))"

definition json_lex :: "string \<Rightarrow> token list option" where
  "json_lex s = lex_go LOut [] s"

text \<open>
  The stack machine. A frame is an array under construction (items reversed), an object
  waiting for a key or a delimiter, or an object holding a key that waits for its value.
  The mode says what the grammar allows next.
\<close>

datatype frame = FArr "pyval list" | FObj "(string \<times> pyval) list" | FKey "(string \<times> pyval) list" string

datatype pmode = PValue | PValueOrEnd | PKeyOrEnd | PKey | PColon | PNext | PDone pyval

text \<open>A finished value goes to the enclosing frame, or is the result when there is none.\<close>

fun deliver :: "pyval \<Rightarrow> frame list \<Rightarrow> (pmode \<times> frame list) option" where
  "deliver v [] = Some (PDone v, [])"
| "deliver v (FArr xs # st) = Some (PNext, FArr (v # xs) # st)"
| "deliver v (FKey kvs k # st) = Some (PNext, FObj (dict_set kvs k v) # st)"
| "deliver v (FObj kvs # st) = None"

definition open_value :: "frame list \<Rightarrow> token \<Rightarrow> (pmode \<times> frame list) option" where
  "open_value st t =
     (case t of
        TAtom v \<Rightarrow> deliver v st
      | TStr s \<Rightarrow> deliver (PStr s) st
      | TLBrace \<Rightarrow> Some (PKeyOrEnd, FObj [] # st)
      | TLBrack \<Rightarrow> Some (PValueOrEnd, FArr [] # st)
      | _ \<Rightarrow> None)"

definition parse_step :: "pmode \<Rightarrow> frame list \<Rightarrow> token \<Rightarrow> (pmode \<times> frame list) option" where
  "parse_step m st t =
     (case m of
        PValue \<Rightarrow> open_value st t
      | PValueOrEnd \<Rightarrow>
          (case (st, t) of
             (FArr xs # st', TRBrack) \<Rightarrow> deliver (PList (rev xs)) st'
           | _ \<Rightarrow> open_value st t)
      | PKeyOrEnd \<Rightarrow>
          (case (st, t) of
             (FObj kvs # st', TStr k) \<Rightarrow> Some (PColon, FKey kvs k # st')
           | (FObj kvs # st', TRBrace) \<Rightarrow> deliver (PDict kvs) st'
           | _ \<Rightarrow> None)
      | PKey \<Rightarrow>
          (case (st, t) of
             (FObj kvs # st', TStr k) \<Rightarrow> Some (PColon, FKey kvs k # st')
           | _ \<Rightarrow> None)
      | PColon \<Rightarrow> (case t of TColon \<Rightarrow> Some (PValue, st) | _ \<Rightarrow> None)
      | PNext \<Rightarrow>
          (case (st, t) of
             (FArr xs # st', TComma) \<Rightarrow> Some (PValue, st)
           | (FObj kvs # st', TComma) \<Rightarrow> Some (PKey, st)
           | (FArr xs # st', TRBrack) \<Rightarrow> deliver (PList (rev xs)) st'
           | (FObj kvs # st', TRBrace) \<Rightarrow> deliver (PDict kvs) st'
           | _ \<Rightarrow> None)
      | PDone v \<Rightarrow> None)"

fun parse_go :: "pmode \<Rightarrow> frame list \<Rightarrow> token list \<Rightarrow> pyval option" where
  "parse_go m st [] = (case m of PDone v \<Rightarrow> Some v | _ \<Rightarrow> None)"
| "parse_go m st (t # ts) =
     (case parse_step m st t of None \<Rightarrow> None | Some (m', st') \<Rightarrow> parse_go m' st' ts)"

definition json_loads :: "string \<Rightarrow> error + pyval" where
  "json_loads s =
     (case json_lex s of
        None \<Rightarrow> Inl JSONDecodeError
      | Some ts \<Rightarrow> (case parse_go PValue [] ts of None \<Rightarrow> Inl JSONDecodeError | Some v \<Rightarrow> Inr v))"

section \<open>The ledger table\<close>

text \<open>
  The nine columns an upload fills, and a row of \<^verbatim>\<open>table_name\<close>: the same columns and
  the key \<^verbatim>\<open>Entry_ID\<close>, which the database assigns. The table's schema is not part of
  the repository, so a column holds the parameter value it was given.
\<close>

record entry =
  DATE :: pyval
  PARTICULARS :: pyval
  Voucher_BillNo :: pyval
  RECEIPTS_Quantity :: pyval
  RECEIPTS_Amount :: pyval
  ISSUED_Quantity :: pyval
  ISSUED_Amount :: pyval
  BALANCE_Quantity :: pyval
  BALANCE_Amount :: pyval

record ledger_row = entry +
  Entry_ID :: int

text \<open>
  The committed state of the database: the rows in heap order, and the sequence behind
  \<^verbatim>\<open>Entry_ID\<close>. A sequence is not transactional: a number drawn by a transaction that
  is never committed is not given back.
\<close>

record store =
  rows :: "ledger_row list"
  next_id :: int

text \<open>The two data-changing statements of \<^verbatim>\<open>app.py\<close>, with their parameters.\<close>

datatype sql = INSERT entry | UPDATE entry pyval | SELECT_ALL

definition with_id :: "entry \<Rightarrow> int \<Rightarrow> ledger_row" where
  "with_id e i = entry.extend e (ledger_row.fields i)"

text \<open>
  PostgreSQL folds an identifier that is not quoted to lower case, and every statement of
  \<^verbatim>\<open>app.py\<close> writes \<^verbatim>\<open>Entry_ID\<close> unquoted: the column such a statement names, and
  the name under which a result row returns it, is \<^verbatim>\<open>entry_id\<close>.
\<close>

definition pg_fold :: "string \<Rightarrow> string" where
  "pg_fold name =
     map (\<lambda>c. case map_of (zip ''ABCDEFGHIJKLMNOPQRSTUVWXYZ'' ''abcdefghijklmnopqrstuvwxyz'') c of
                 Some l \<Rightarrow> l
               | None \<Rightarrow> c) name"

text \<open>
  \<^verbatim>\<open>INSERT INTO table_name (...) VALUES (...) RETURNING Entry_ID\<close>: the row is added
  with the next number of the sequence, and the result row a \<^verbatim>\<open>RealDictCursor\<close> hands
  to \<^verbatim>\<open>fetchone()\<close> is a dict from the returned column's name to that number.
\<close>

definition sql_insert :: "store \<Rightarrow> entry \<Rightarrow> store \<times> pyval" where
  "sql_insert tx e =
     (\<lparr>rows = rows tx @ [with_id e (next_id tx)], next_id = next_id tx + 1\<rparr>,
      PDict [(pg_fold ''Entry_ID'', PInt (next_id tx))])"

text \<open>
  \<^verbatim>\<open>WHERE Entry_ID = %s\<close>: the parameter against the key, an \<^verbatim>\<open>integer\<close> column
  (what \<^verbatim>\<open>SERIAL\<close> declares). psycopg2 writes an int or a float as a number, which is
  compared by value; \<^verbatim>\<open>None\<close> as \<^verbatim>\<open>NULL\<close>, equal to nothing; a string as a quoted
  literal, which PostgreSQL reads as an integer (blanks, a sign, decimal digits, within 32
  bits) or refuses; a bool as \<^verbatim>\<open>true\<close> or \<^verbatim>\<open>false\<close> and a list as an array, neither
  of which can be compared with an integer; a dict it cannot write at all. \<open>sql_id_check\<close>
  is the exception the statement raises for such a parameter, if any.
\<close>

definition pg_int4_of_str :: "string \<Rightarrow> int option" where
  "pg_int4_of_str s =
     (let (neg, ds) = split_sign (strip s);
          v = (if neg then - digits_val ds else digits_val ds)
      in if ds = [] \<or> \<not> list_all is_digit ds \<or> v < - (2 ^ 31) \<or> 2 ^ 31 \<le> v then None
         else Some v)"

fun sql_id_check :: "pyval \<Rightarrow> error option" where
  "sql_id_check (PInt i) = None"
| "sql_id_check (PFloat f) = None"
| "sql_id_check PNone = None"
| "sql_id_check (PStr s) =
     (case pg_int4_of_str s of
        None \<Rightarrow> Some (DBError ''invalid input syntax for type integer'')
      | Some k \<Rightarrow> None)"
| "sql_id_check (PBool b) = Some (DBError ''operator does not exist: integer = boolean'')"
| "sql_id_check (PList xs) = Some (DBError ''operator does not exist: integer = array'')"
| "sql_id_check (PDict kvs) = Some (DBError ''cannot adapt type dict'')"

fun sql_eq_id :: "pyval \<Rightarrow> int \<Rightarrow> bool" where
  "sql_eq_id (PInt i) k = (i = k)"
| "sql_eq_id (PFloat (Fin r)) k = (r = rat_of_int k)"
| "sql_eq_id (PStr s) k = (pg_int4_of_str s = Some k)"
| "sql_eq_id _ k = False"

text \<open>\<^verbatim>\<open>UPDATE table_name SET DATE = %s, ..., BALANCE_Amount = %s WHERE Entry_ID = %s\<close>\<close>

definition set_columns :: "entry \<Rightarrow> ledger_row \<Rightarrow> ledger_row" where
  "set_columns e r = with_id e (Entry_ID r)"

definition sql_update :: "store \<Rightarrow> entry \<Rightarrow> pyval \<Rightarrow> store" where
  "sql_update tx e idv =
     tx\<lparr>rows := map (\<lambda>r. if sql_eq_id idv (Entry_ID r) then set_columns e r else r) (rows tx)\<rparr>"

text \<open>\<^verbatim>\<open>SELECT * FROM table_name ORDER BY Entry_ID\<close>\<close>

definition sql_select_all :: "store \<Rightarrow> ledger_row list" where
  "sql_select_all db = sort_key Entry_ID (rows db)"

section \<open>The world outside the process\<close>

text \<open>
  What the handlers reach through their three clients, as parameters of the model:
  whether PostgreSQL accepts a connection, a statement and the commit (an error is the
  exception psycopg2 raises), what the generative model answers for a mime type and the
  bytes of a file (\<^verbatim>\<open>generate_content(...).text\<close>), what the spreadsheet service answers, and the
  clock: \<open>today w k\<close> and \<open>stamp w k\<close> are the \<^verbatim>\<open>%Y-%m-%d\<close> and
  \<^verbatim>\<open>%Y%m%d_%H%M%S\<close> renderings of the \<open>k\<close>-th \<^verbatim>\<open>datetime.now()\<close> of a request.
\<close>

record file_storage =
  filename :: string
  mimetype :: string
  content :: string

record world =
  db_connect :: "error option"
  db_refuses :: "sql \<Rightarrow> error option"
  db_commit :: "error option"
  gemini :: "string \<Rightarrow> string \<Rightarrow> error + string"
  sheets_create :: "string \<Rightarrow> error + string"
  sheets_update :: "string \<Rightarrow> pyval list list \<Rightarrow> error option"
  sheets_get :: "string \<Rightarrow> string \<Rightarrow> error + pyval"
  today :: "nat \<Rightarrow> string"
  stamp :: "nat \<Rightarrow> string"

text \<open>The calls made to the spreadsheet service, in order.\<close>

datatype call =
    SheetsGet string string
  | SheetsCreate string
  | SheetsUpdate string "pyval list list"

section \<open>Requests and responses\<close>

text \<open>The upload routes are registered for these two methods only.\<close>

datatype http_method = POST | OPTIONS

text \<open>
  \<^verbatim>\<open>request.files\<close> is a multi-dict: the uploaded files with the form field each came
  under, in order.
\<close>

record upload_request =
  req_method :: http_method
  form_files :: "(string \<times> file_storage) list"

definition getlist :: "(string \<times> file_storage) list \<Rightarrow> string \<Rightarrow> file_storage list" where
  "getlist fd k = map snd (filter (\<lambda>p. fst p = k) fd)"

text \<open>
  A response body: empty, a JSON document, the listing's rows, or the two error shapes
  built from an exception: \<^verbatim>\<open>{'error': str(e)}\<close> and
  \<^verbatim>\<open>{'error': f"Failed to process files: {str(e)}"}\<close>.
\<close>

datatype body =
    NoBody
  | Json pyval
  | JsonRows "ledger_row list"
  | JsonError error
  | JsonFailed error

type_synonym response = "nat \<times> body"

definition error_body :: "string \<Rightarrow> body" where
  "error_body msg = Json (PDict [(''error'', PStr msg)])"

definition message_body :: "string \<Rightarrow> body" where
  "message_body msg = Json (PDict [(''message'', PStr msg)])"

section \<open>\<^verbatim>\<open>GET /get-sheet-data\<close>\<close>

text \<open>
  \<^verbatim>\<open>request.args.get\<close> returns the first value of a query parameter or the default;
  \<^verbatim>\<open>not spreadsheet_id\<close> holds for a missing and for an empty one.
\<close>

definition get_sheet_data :: "world \<Rightarrow> (string \<times> string) list \<Rightarrow> response \<times> call list" where
  "get_sheet_data w args =
     (let spreadsheet_id = map_of args ''spreadsheet_id'';
          range_name = (case map_of args ''range'' of None \<Rightarrow> ''Sheet1!A1:J'' | Some r \<Rightarrow> r)
      in case spreadsheet_id of
           None \<Rightarrow> ((400, error_body ''Missing spreadsheet_id''), [])
         | Some sid \<Rightarrow>
             if sid = [] then ((400, error_body ''Missing spreadsheet_id''), [])
             else
               (case sheets_get w sid range_name of
                  Inl e \<Rightarrow> ((500, JsonError e), [SheetsGet sid range_name])
                | Inr result \<Rightarrow>
                    (case py_get result ''values'' (PList []) of
                       Inl e \<Rightarrow> ((500, JsonError e), [SheetsGet sid range_name])
                     | Inr v \<Rightarrow> ((200, Json (PDict [(''values'', v)])), [SheetsGet sid range_name]))))"

section \<open>Building a ledger entry\<close>

text \<open>
  The entry of \<^verbatim>\<open>/upload\<close> (lines 96--107): \<^verbatim>\<open>gemini_result\<close> is the empty dict, and
  the keys are evaluated in the order they are written.
\<close>

definition upload_entry :: "string \<Rightarrow> error + entry" where
  "upload_entry d =
     (let gemini_result = PDict [] in
      bindE (py_get gemini_result ''description'' (PStr ''Processed File'')) (\<lambda>p.
      bindE (py_get gemini_result ''bill_no'' (PStr ''N/A'')) (\<lambda>b.
      bindE (py_get gemini_result ''quantity'' (PInt 0)) (\<lambda>rq.
      bindE (bindE (py_get gemini_result ''amount'' (PFloat (Fin 0))) py_float) (\<lambda>ra.
      bindE (py_get gemini_result ''quantity'' (PInt 0)) (\<lambda>bq.
      bindE (bindE (py_get gemini_result ''amount'' (PFloat (Fin 0))) py_float) (\<lambda>ba.
      Inr \<lparr>DATE = PStr d, PARTICULARS = p, Voucher_BillNo = b,
           RECEIPTS_Quantity = rq, RECEIPTS_Amount = PFloat ra,
           ISSUED_Quantity = PInt 0, ISSUED_Amount = PFloat (Fin 0),
           BALANCE_Quantity = bq, BALANCE_Amount = PFloat ba\<rparr>)))))))"

text \<open>
  The reply of the model in \<^verbatim>\<open>/upload-flash\<close> (lines 160--162):
  \<^verbatim>\<open>json.loads(gemini_result) if gemini_result.startswith('{') else {...}\<close>.
\<close>

definition startswith_brace :: "string \<Rightarrow> bool" where
  "startswith_brace s = (case s of [] \<Rightarrow> False | c # _ \<Rightarrow> c = CHR ''{'')"

definition gemini_data_of :: "string \<Rightarrow> error + pyval" where
  "gemini_data_of gemini_result =
     (if startswith_brace gemini_result then json_loads gemini_result
      else Inr (PDict [(''description'', PStr gemini_result), (''bill_no'', PStr ''N/A''),
                       (''quantity'', PInt 0), (''amount'', PFloat (Fin 0))]))"

text \<open>The entry of \<^verbatim>\<open>/upload-flash\<close> (lines 163--173), key by key.\<close>

definition flash_entry :: "string \<Rightarrow> pyval \<Rightarrow> error + entry" where
  "flash_entry d gemini_data =
     bindE (py_get gemini_data ''description'' (PStr ''Processed File'')) (\<lambda>p.
     bindE (py_get gemini_data ''bill_no'' (PStr ''N/A'')) (\<lambda>b.
     bindE (bindE (py_get gemini_data ''quantity'' (PInt 0)) py_int) (\<lambda>rq.
     bindE (bindE (py_get gemini_data ''amount'' (PFloat (Fin 0))) py_float) (\<lambda>ra.
     bindE (bindE (py_get gemini_data ''quantity'' (PInt 0)) py_int) (\<lambda>bq.
     bindE (bindE (py_get gemini_data ''amount'' (PFloat (Fin 0))) py_float) (\<lambda>ba.
     Inr \<lparr>DATE = PStr d, PARTICULARS = p, Voucher_BillNo = b,
          RECEIPTS_Quantity = PInt rq, RECEIPTS_Amount = PFloat ra,
          ISSUED_Quantity = PInt 0, ISSUED_Amount = PFloat (Fin 0),
          BALANCE_Quantity = PInt bq, BALANCE_Amount = PFloat ba\<rparr>))))))"

text \<open>
  The extractor: what the handler reads off the model's reply before it coerces anything,
  that is \<^verbatim>\<open>gemini_data\<close> and the four \<^verbatim>\<open>.get\<close> calls with their defaults.
\<close>

record extracted =
  description :: pyval
  billNo :: pyval
  quantity :: pyval
  amount :: pyval



section \<open>\<^verbatim>\<open>POST /upload\<close>\<close>

text \<open>The first loop of \<^verbatim>\<open>upload_files\<close>: one entry per file, in order.\<close>

fun build_upload_entries :: "world \<Rightarrow> nat \<Rightarrow> file_storage list \<Rightarrow> error + entry list" where
  "build_upload_entries w k [] = Inr []"
| "build_upload_entries w k (f # fs) =
     bindE (upload_entry (today w k)) (\<lambda>e.
     bindE (build_upload_entries w (Suc k) fs) (\<lambda>es. Inr (e # es)))"

text \<open>
  The insert loop shared by both upload handlers (lines 112--124 and 179--191), inside one
  transaction \<open>tx\<close>: each entry is inserted, and its \<^verbatim>\<open>Entry_ID\<close> is read off the
  result row with \<^verbatim>\<open>cur.fetchone()['Entry_ID']\<close>. The loop stops at the first exception,
  of the statement or of that subscript; the result then carries the exception and the
  abandoned transaction. Otherwise it is the transaction and the entries with their ids.
\<close>

fun insert_all :: "world \<Rightarrow> store \<Rightarrow> entry list \<Rightarrow> (error \<times> store) + (store \<times> (pyval \<times> entry) list)" where
  "insert_all w tx [] = Inr (tx, [])"
| "insert_all w tx (e # es) =
     (case db_refuses w (INSERT e) of
        Some err \<Rightarrow> Inl (err, tx)
      | None \<Rightarrow>
          (case py_getitem (snd (sql_insert tx e)) ''Entry_ID'' of
             Inl err \<Rightarrow> Inl (err, fst (sql_insert tx e))
           | Inr idv \<Rightarrow>
               (case insert_all w (fst (sql_insert tx e)) es of
                  Inl x \<Rightarrow> Inl x
                | Inr (tx', rs) \<Rightarrow> Inr (tx', (idv, e) # rs))))"

text \<open>
  A transaction that ends without \<^verbatim>\<open>conn.commit()\<close> leaves the committed rows as they
  were; only the sequence keeps the numbers it gave out.
\<close>

definition abandon :: "store \<Rightarrow> store \<Rightarrow> store" where
  "abandon db tx = db\<lparr>next_id := next_id tx\<rparr>"

definition upload_files :: "world \<Rightarrow> store \<Rightarrow> upload_request \<Rightarrow> response \<times> store" where
  "upload_files w db req =
     (if req_method req = OPTIONS then ((200, NoBody), db)
      else if \<not> list_ex (\<lambda>p. fst p = ''files'') (form_files req)
      then ((400, error_body ''No files uploaded''), db)
      else
        (let files = getlist (form_files req) ''files'' in
         if files = [] \<or> list_all (\<lambda>f. filename f = []) files
         then ((400, error_body ''No valid files uploaded''), db)
         else
           (case build_upload_entries w 0 files of
              Inl e \<Rightarrow> ((500, JsonError e), db)
            | Inr data_entries \<Rightarrow>
                (case db_connect w of
                   Some e \<Rightarrow> ((500, JsonError e), db)
                 | None \<Rightarrow>
                     (case insert_all w db data_entries of
                        Inl (e, tx) \<Rightarrow> ((500, JsonError e), abandon db tx)
                      | Inr (tx, inserted) \<Rightarrow>
                          (case db_commit w of
                             Some e \<Rightarrow> ((500, JsonError e), abandon db tx)
                           | None \<Rightarrow> ((200, message_body ''Files processed''), tx)))))))"

section \<open>\<^verbatim>\<open>POST /upload-flash\<close>\<close>

text \<open>
  The first loop of \<^verbatim>\<open>upload_files_flash\<close> (lines 151--174): every file is read, sent
  to the model and turned into an entry before anything is inserted.
\<close>

fun build_flash_entries :: "world \<Rightarrow> nat \<Rightarrow> file_storage list \<Rightarrow> error + entry list" where
  "build_flash_entries w k [] = Inr []"
| "build_flash_entries w k (f # fs) =
     bindE (gemini w (mimetype f) (content f)) (\<lambda>gemini_result.
     bindE (gemini_data_of gemini_result) (\<lambda>gemini_data.
     bindE (flash_entry (today w k) gemini_data) (\<lambda>e.
     bindE (build_flash_entries w (Suc k) fs) (\<lambda>es. Inr (e # es)))))"

definition sheet_headers :: "pyval list" where
  "sheet_headers = map PStr [''Entry_ID'', ''DATE'', ''PARTICULARS'', ''Voucher_BillNo'',
     ''RECEIPTS_Quantity'', ''RECEIPTS_Amount'', ''ISSUED_Quantity'', ''ISSUED_Amount'',
     ''BALANCE_Quantity'', ''BALANCE_Amount'']"

definition sheet_row :: "pyval \<times> entry \<Rightarrow> pyval list" where
  "sheet_row ie = (case ie of (idv, e) \<Rightarrow>
     [idv, DATE e, PARTICULARS e, Voucher_BillNo e,
      RECEIPTS_Quantity e, RECEIPTS_Amount e, ISSUED_Quantity e, ISSUED_Amount e,
      BALANCE_Quantity e, BALANCE_Amount e])"

text \<open>
  Lines 194--214: a new spreadsheet named after the clock, then the header and one line
  per entry written at \<^verbatim>\<open>A1\<close>. The result is the sheet's URL.
\<close>

definition publish :: "world \<Rightarrow> nat \<Rightarrow> (pyval \<times> entry) list \<Rightarrow> (error + string) \<times> call list" where
  "publish w k data_entries =
     (let title = ''Upload_'' @ stamp w k in
      case sheets_create w title of
        Inl e \<Rightarrow> (Inl e, [SheetsCreate title])
      | Inr spreadsheet_id \<Rightarrow>
          (let values = sheet_headers # map sheet_row data_entries in
           case sheets_update w spreadsheet_id values of
             Some e \<Rightarrow> (Inl e, [SheetsCreate title, SheetsUpdate spreadsheet_id values])
           | None \<Rightarrow>
               (Inr (''https://docs.google.com/spreadsheets/d/'' @ spreadsheet_id),
                [SheetsCreate title, SheetsUpdate spreadsheet_id values])))"

definition published_body :: "string \<Rightarrow> body" where
  "published_body sheet_url =
     Json (PDict [(''message'', PStr ''Files processed and new spreadsheet created''),
                  (''sheet_url'', PStr sheet_url)])"

definition upload_files_flash :: "world \<Rightarrow> store \<Rightarrow> upload_request \<Rightarrow> response \<times> store \<times> call list" where
  "upload_files_flash w db req =
     (if req_method req = OPTIONS then ((200, NoBody), db, [])
      else if \<not> list_ex (\<lambda>p. fst p = ''files'') (form_files req)
      then ((400, error_body ''No files uploaded''), db, [])
      else
        (let files = getlist (form_files req) ''files'' in
         if files = [] \<or> list_all (\<lambda>f. filename f = []) files
         then ((400, error_body ''No valid files uploaded''), db, [])
         else
           (case build_flash_entries w 0 files of
              Inl e \<Rightarrow> ((500, JsonFailed e), db, [])
            | Inr data_entries \<Rightarrow>
                (case db_connect w of
                   Some e \<Rightarrow> ((500, JsonFailed e), db, [])
                 | None \<Rightarrow>
                     (case insert_all w db data_entries of
                        Inl (e, tx) \<Rightarrow> ((500, JsonFailed e), abandon db tx, [])
                      | Inr (tx, inserted) \<Rightarrow>
                          (case db_commit w of
                             Some e \<Rightarrow> ((500, JsonFailed e), abandon db tx, [])
                           | None \<Rightarrow>
                               (case publish w (length files) inserted of
                                  (Inl e, calls) \<Rightarrow> ((500, JsonFailed e), tx, calls)
                                | (Inr sheet_url, calls) \<Rightarrow>
                                    ((200, published_body sheet_url), tx, calls))))))))"

section \<open>\<^verbatim>\<open>GET /results\<close>\<close>

definition get_results :: "world \<Rightarrow> store \<Rightarrow> response" where
  "get_results w db =
     (case db_connect w of
        Some e \<Rightarrow> (500, JsonError e)
      | None \<Rightarrow>
          (case db_refuses w SELECT_ALL of
             Some e \<Rightarrow> (500, JsonError e)
           | None \<Rightarrow> (200, JsonRows (sql_select_all db))))"

section \<open>\<^verbatim>\<open>POST /update\<close>\<close>

text \<open>
  The parameter tuple of one \<^verbatim>\<open>UPDATE\<close> (lines 251--257): ten subscripts of the update
  record, left to right; the first missing key raises.
\<close>

definition update_stmt :: "pyval \<Rightarrow> error + (entry \<times> pyval)" where
  "update_stmt update =
     bindE (py_getitem update ''DATE'') (\<lambda>d.
     bindE (py_getitem update ''PARTICULARS'') (\<lambda>p.
     bindE (py_getitem update ''Voucher_BillNo'') (\<lambda>b.
     bindE (py_getitem update ''RECEIPTS_Quantity'') (\<lambda>rq.
     bindE (py_getitem update ''RECEIPTS_Amount'') (\<lambda>ra.
     bindE (py_getitem update ''ISSUED_Quantity'') (\<lambda>iq.
     bindE (py_getitem update ''ISSUED_Amount'') (\<lambda>ia.
     bindE (py_getitem update ''BALANCE_Quantity'') (\<lambda>bq.
     bindE (py_getitem update ''BALANCE_Amount'') (\<lambda>ba.
     bindE (py_getitem update ''Entry_ID'') (\<lambda>i.
     Inr (\<lparr>DATE = d, PARTICULARS = p, Voucher_BillNo = b,
           RECEIPTS_Quantity = rq, RECEIPTS_Amount = ra,
           ISSUED_Quantity = iq, ISSUED_Amount = ia,
           BALANCE_Quantity = bq, BALANCE_Amount = ba\<rparr>, i)))))))))))"

text \<open>
  The loop of \<^verbatim>\<open>update_data\<close> inside its transaction: it stops at the first exception,
  of a subscript, of the comparison with the key, or of the statement otherwise.
\<close>

fun update_all :: "world \<Rightarrow> store \<Rightarrow> pyval list \<Rightarrow> error + store" where
  "update_all w tx [] = Inr tx"
| "update_all w tx (u # us) =
     (case update_stmt u of
        Inl err \<Rightarrow> Inl err
      | Inr (e, i) \<Rightarrow>
          (case sql_id_check i of
             Some err \<Rightarrow> Inl err
           | None \<Rightarrow>
               (case db_refuses w (UPDATE e i) of
                  Some err \<Rightarrow> Inl err
                | None \<Rightarrow> update_all w (sql_update tx e i) us)))"

text \<open>
  \<^verbatim>\<open>request.json\<close> either raises (no JSON body) or is the decoded body, of any shape.
  The commit is the last database call; every exception before it leaves the handler
  through \<^verbatim>\<open>except\<close>, and the transaction is never committed.
\<close>

definition update_data :: "world \<Rightarrow> store \<Rightarrow> error + pyval \<Rightarrow> response \<times> store" where
  "update_data w db request_json =
     (case request_json of
        Inl e \<Rightarrow> ((500, JsonError e), db)
      | Inr updates \<Rightarrow>
          (case db_connect w of
             Some e \<Rightarrow> ((500, JsonError e), db)
           | None \<Rightarrow>
               (case bindE (py_iter updates) (update_all w db) of
                  Inl e \<Rightarrow> ((500, JsonError e), db)
                | Inr tx \<Rightarrow>
                    (case db_commit w of
                       Some e \<Rightarrow> ((500, JsonError e), db)
                     | None \<Rightarrow> ((200, message_body ''Data updated''), tx)))))"

section \<open>Sample data\<close>

text \<open>
  A world in which every external call succeeds and the model answers with the bytes it
  was sent, so that an uploaded file's content is the reply under test; and a store
  holding two rows, 7 before 3 in heap order.
\<close>

definition echo_world :: world where
  "echo_world =
     \<lparr>db_connect = None, db_refuses = (\<lambda>q. None), db_commit = None,
      gemini = (\<lambda>mime data. Inr data),
      sheets_create = (\<lambda>title. Inr ''sheet-1''),
      sheets_update = (\<lambda>sid values. None),
      sheets_get = (\<lambda>sid range. Inr (PDict [])),
      today = (\<lambda>k. ''2024-01-01''), stamp = (\<lambda>k. ''20240101_120000'')\<rparr>"

definition empty_store :: store where
  "empty_store = \<lparr>rows = [], next_id = 1\<rparr>"

definition sample_entry :: "string \<Rightarrow> int \<Rightarrow> entry" where
  "sample_entry what n =
     \<lparr>DATE = PStr ''2024-01-01'', PARTICULARS = PStr what, Voucher_BillNo = PStr ''N/A'',
      RECEIPTS_Quantity = PInt n, RECEIPTS_Amount = PFloat (Fin 0),
      ISSUED_Quantity = PInt 0, ISSUED_Amount = PFloat (Fin 0),
      BALANCE_Quantity = PInt n, BALANCE_Amount = PFloat (Fin 0)\<rparr>"

definition sample_store :: store where
  "sample_store =
     \<lparr>rows = [with_id (sample_entry ''ink'' 2) 7, with_id (sample_entry ''pen'' 5) 3], next_id = 8\<rparr>"

definition upload_of :: "(string \<times> string) list \<Rightarrow> upload_request" where
  "upload_of named =
     \<lparr>req_method = POST,
      form_files = map (\<lambda>(n, c). (''files'', \<lparr>filename = n, mimetype = ''text/plain'', content = c\<rparr>)) named\<rparr>"

text \<open>
  An upload of two files, the second without a name, whose contents are a reply in prose
  and a reply in JSON; and the decoded reply of the specification's example.
\<close>

definition two_files :: upload_request where
  \<open>two_files = upload_of [(''a.txt'', ''some prose''), ([], ''{"quantity": "3", "amount": 2}'')]\<close>

definition pen_reply :: pyval where
  "pen_reply = PDict [(''description'', PStr ''Pen''), (''bill_no'', PStr ''B1''),
                      (''quantity'', PInt 5), (''amount'', PFloat (Fin 12.5))]"

text \<open>
  An update record with every key, for a given \<^verbatim>\<open>Entry_ID\<close> and description, and the
  column values it carries.
\<close>

definition update_record :: "pyval \<Rightarrow> string \<Rightarrow> pyval" where
  "update_record idv what =
     PDict [(''Entry_ID'', idv), (''DATE'', PStr ''2024-02-02''), (''PARTICULARS'', PStr what),
            (''Voucher_BillNo'', PStr ''V-1''),
            (''RECEIPTS_Quantity'', PInt 4), (''RECEIPTS_Amount'', PFloat (Fin 10)),
            (''ISSUED_Quantity'', PInt 1), (''ISSUED_Amount'', PFloat (Fin 2.5)),
            (''BALANCE_Quantity'', PInt 3), (''BALANCE_Amount'', PFloat (Fin 99.9))]"

definition updated_entry :: "string \<Rightarrow> entry" where
  "updated_entry what =
     \<lparr>DATE = PStr ''2024-02-02'', PARTICULARS = PStr what, Voucher_BillNo = PStr ''V-1'',
      RECEIPTS_Quantity = PInt 4, RECEIPTS_Amount = PFloat (Fin 10),
      ISSUED_Quantity = PInt 1, ISSUED_Amount = PFloat (Fin 2.5),
      BALANCE_Quantity = PInt 3, BALANCE_Amount = PFloat (Fin 99.9)\<rparr>"

text \<open>An update record that lacks most of its keys.\<close>

definition partial_record :: pyval where
  "partial_record = PDict [(''Entry_ID'', PInt 3), (''DATE'', PStr ''2024-02-03'')]"





text \<open>The entry built from a reply whose amount is nan.\<close>

definition nan_entry :: entry where
  "nan_entry =
     \<lparr>DATE = PStr ''2024-01-01'', PARTICULARS = PStr ''Processed File'',
      Voucher_BillNo = PStr ''N/A'',
      RECEIPTS_Quantity = PInt 0, RECEIPTS_Amount = PFloat NaN,
      ISSUED_Quantity = PInt 0, ISSUED_Amount = PFloat (Fin 0),
      BALANCE_Quantity = PInt 0, BALANCE_Amount = PFloat NaN\<rparr>"

section \<open>Predicates of the statements\<close>




text \<open>
  The state of an entry at creation, with Python's \<^verbatim>\<open>==\<close>: nothing issued yet, so the
  balance is what was received.
\<close>

definition opening_balance :: "'a entry_scheme \<Rightarrow> bool" where
  "opening_balance e =
     (py_eq (BALANCE_Quantity e) (RECEIPTS_Quantity e)
      \<and> py_eq (BALANCE_Amount e) (RECEIPTS_Amount e)
      \<and> py_eq (ISSUED_Quantity e) (PInt 0) \<and> py_eq (ISSUED_Amount e) (PFloat (Fin 0)))"

text \<open>
  What the entry of \<^verbatim>\<open>/upload-flash\<close> has instead: the balance amount is the very value
  of the receipts amount, and the two compare equal unless that value is nan.
\<close>

definition balance_carried :: "'a entry_scheme \<Rightarrow> bool" where
  "balance_carried e =
     (py_eq (BALANCE_Quantity e) (RECEIPTS_Quantity e)
      \<and> BALANCE_Amount e = RECEIPTS_Amount e
      \<and> (py_eq (BALANCE_Amount e) (RECEIPTS_Amount e) \<longleftrightarrow> RECEIPTS_Amount e \<noteq> PFloat NaN)
      \<and> py_eq (ISSUED_Quantity e) (PInt 0) \<and> py_eq (ISSUED_Amount e) (PFloat (Fin 0)))"

section \<open>Evaluating the overflow bound\<close>

lemma double_top_numeral [code]:
  "double_top = 179769313486231590772930519078902473361797697894230657273430081157732675805500963132708477322407536021120113879871393357658789768814416622492847430639474124377767893424865485276302219601246094119453082952085005768838150682342462881473913110540827237163350510684586298239947245938479716304835356329624224137216"
  unfolding double_top_def by simp

section \<open>The decoder returns a dict for a text that opens with a brace\<close>
















section \<open>The sheet-fetch endpoint\<close>

text \<open>
  Claim C9. A request to \<^verbatim>\<open>/get-sheet-data\<close> without the query parameter
  \<^verbatim>\<open>spreadsheet_id\<close> is answered with status 400 and the body
  \<^verbatim>\<open>{"error": "Missing spreadsheet_id"}\<close>, and the spreadsheet service is not called.
\<close>

theorem get_sheet_data_missing_id:
  "map_of args ''spreadsheet_id'' = None \<Longrightarrow>
   get_sheet_data w args = ((400, Json (PDict [(''error'', PStr ''Missing spreadsheet_id'')])), [])"
  by (simp add: get_sheet_data_def error_body_def)

theorem get_sheet_data_missing_id_witness:
  "map_of [(''range'', ''A1:B2'')] ''spreadsheet_id'' = None \<and>
   get_sheet_data echo_world [(''range'', ''A1:B2'')] =
     ((400, Json (PDict [(''error'', PStr ''Missing spreadsheet_id'')])), [])"
  using get_sheet_data_missing_id [of "[(''range'', ''A1:B2'')]" echo_world] by simp

section \<open>Uploads without files\<close>

text \<open>
  Claim C5. A \<^verbatim>\<open>POST\<close> whose field \<^verbatim>\<open>files\<close> is absent, whose file list is empty, or
  whose files all have an empty filename is answered with 400 by \<^verbatim>\<open>/upload\<close> and by
  \<^verbatim>\<open>/upload-flash\<close>; the store is left as it was and no spreadsheet call is made.
\<close>

theorem upload_without_files_rejected:
  assumes "req_method req = POST"
    and "\<not> list_ex (\<lambda>p. fst p = ''files'') (form_files req)
         \<or> getlist (form_files req) ''files'' = []
         \<or> list_all (\<lambda>f. filename f = []) (getlist (form_files req) ''files'')"
  shows "fst (fst (upload_files w db req)) = 400 \<and> snd (upload_files w db req) = db
       \<and> fst (fst (upload_files_flash w db req)) = 400
       \<and> snd (upload_files_flash w db req) = (db, [])"
  using assms by (auto simp: upload_files_def upload_files_flash_def Let_def)

theorem upload_without_files_rejected_witness:
  "req_method (upload_of [([], ''abc'')]) = POST
   \<and> list_all (\<lambda>f. filename f = []) (getlist (form_files (upload_of [([], ''abc'')])) ''files'')
   \<and> fst (fst (upload_files echo_world sample_store (upload_of [([], ''abc'')]))) = 400
   \<and> snd (upload_files echo_world sample_store (upload_of [([], ''abc'')])) = sample_store
   \<and> fst (fst (upload_files_flash echo_world sample_store (upload_of [([], ''abc'')]))) = 400
   \<and> snd (upload_files_flash echo_world sample_store (upload_of [([], ''abc'')])) = (sample_store, [])"
  using upload_without_files_rejected [of "upload_of [([], ''abc'')]" echo_world sample_store]
  by (simp add: upload_of_def getlist_def)

section \<open>The listing\<close>

text \<open>
  Claim C7. When the database answers, \<^verbatim>\<open>/results\<close> responds 200 with all rows of the
  store, each once, in non-decreasing order of \<^verbatim>\<open>Entry_ID\<close>; for an empty store the
  answer is the empty sequence, still with 200.
\<close>

theorem listing_sorted:
  "db_connect w = None \<Longrightarrow> db_refuses w SELECT_ALL = None \<Longrightarrow>
   (\<exists>rs. get_results w db = (200, JsonRows rs) \<and> sorted (map Entry_ID rs)
      \<and> mset rs = mset (rows db) \<and> (rows db = [] \<longrightarrow> rs = []))"
  by (simp add: get_results_def sql_select_all_def)

theorem listing_sorted_witness:
  "db_connect echo_world = None \<and> db_refuses echo_world SELECT_ALL = None
   \<and> get_results echo_world sample_store =
       (200, JsonRows [with_id (sample_entry ''pen'' 5) 3, with_id (sample_entry ''ink'' 2) 7])
   \<and> get_results echo_world empty_store = (200, JsonRows [])"
  using listing_sorted [of echo_world sample_store] listing_sorted [of echo_world empty_store]
  by (simp add: echo_world_def get_results_def sql_select_all_def sample_store_def
      empty_store_def with_id_def entry.extend_def ledger_row.fields_def)

section \<open>Basic facts\<close>

lemma bindE_simps [simp]:
  "bindE (Inl e) f = Inl e" "bindE (Inr x) f = f x"
  by (simp_all add: bindE_def)

lemma bindE_eq_Inr:
  "bindE m f = Inr y \<longleftrightarrow> (\<exists>x. m = Inr x \<and> f x = Inr y)"
  by (cases m) simp_all

lemma bindE_eq_Inl:
  "bindE m f = Inl e \<longleftrightarrow> m = Inl e \<or> (\<exists>x. m = Inr x \<and> f x = Inl e)"
  by (cases m) simp_all

lemma with_id_sel [simp]:
  "Entry_ID (with_id e i) = i" "DATE (with_id e i) = DATE e"
  "PARTICULARS (with_id e i) = PARTICULARS e" "Voucher_BillNo (with_id e i) = Voucher_BillNo e"
  "RECEIPTS_Quantity (with_id e i) = RECEIPTS_Quantity e"
  "RECEIPTS_Amount (with_id e i) = RECEIPTS_Amount e"
  "ISSUED_Quantity (with_id e i) = ISSUED_Quantity e"
  "ISSUED_Amount (with_id e i) = ISSUED_Amount e"
  "BALANCE_Quantity (with_id e i) = BALANCE_Quantity e"
  "BALANCE_Amount (with_id e i) = BALANCE_Amount e"
  by (simp_all add: with_id_def entry.extend_def ledger_row.fields_def)

lemma abandon_rows [simp]: "rows (abandon db tx) = rows db"
  by (simp add: abandon_def)

section \<open>Reading the fields of a reply\<close>








section \<open>The extractor\<close>


section \<open>The insert loop never assigns an id\<close>

lemma pg_fold_Entry_ID: "pg_fold ''Entry_ID'' = ''entry_id''"
  by (simp add: pg_fold_def)

lemma fetchone_Entry_ID:
  "py_getitem (snd (sql_insert tx e)) ''Entry_ID'' = Inl (KeyError ''Entry_ID'')"
  by (simp add: sql_insert_def pg_fold_Entry_ID)

lemma insert_all_Cons:
  "insert_all w tx (e # es) =
     (case db_refuses w (INSERT e) of
        Some err \<Rightarrow> Inl (err, tx)
      | None \<Rightarrow> Inl (KeyError ''Entry_ID'', fst (sql_insert tx e)))"
  by (simp add: fetchone_Entry_ID split: option.splits)


lemma insert_all_nonempty_fails:
  "es \<noteq> [] \<Longrightarrow> \<exists>err tx'. insert_all w tx es = Inl (err, tx')"
  by (cases es) (auto simp: insert_all_Cons simp del: insert_all.simps split: option.splits)

lemma build_upload_entries_length:
  "build_upload_entries w k fs = Inr es \<Longrightarrow> length es = length fs"
  by (induction fs arbitrary: k es) (auto simp: bindE_eq_Inr)

lemma build_flash_entries_length:
  "build_flash_entries w k fs = Inr es \<Longrightarrow> length es = length fs"
  by (induction fs arbitrary: k es) (auto simp: bindE_eq_Inr)

lemma files_field_present:
  "getlist fd ''files'' \<noteq> [] \<Longrightarrow> list_ex (\<lambda>p. fst p = ''files'') fd"
  by (auto simp: getlist_def list_ex_iff filter_empty_conv)

text \<open>The two upload handlers for a \<^verbatim>\<open>POST\<close> that passes the checks on its files.\<close>

lemma upload_valid_files:
  assumes "req_method req = POST" and "getlist (form_files req) ''files'' \<noteq> []"
    and "\<not> list_all (\<lambda>f. filename f = []) (getlist (form_files req) ''files'')"
  shows "upload_files w db req =
     (case build_upload_entries w 0 (getlist (form_files req) ''files'') of
        Inl e \<Rightarrow> ((500, JsonError e), db)
      | Inr data_entries \<Rightarrow>
          (case db_connect w of
             Some e \<Rightarrow> ((500, JsonError e), db)
           | None \<Rightarrow>
               (case insert_all w db data_entries of
                  Inl (e, tx) \<Rightarrow> ((500, JsonError e), abandon db tx)
                | Inr (tx, inserted) \<Rightarrow>
                    (case db_commit w of
                       Some e \<Rightarrow> ((500, JsonError e), abandon db tx)
                     | None \<Rightarrow> ((200, message_body ''Files processed''), tx)))))"
  using assms files_field_present [OF assms(2)] by (simp add: upload_files_def Let_def)

lemma flash_valid_files:
  assumes "req_method req = POST" and "getlist (form_files req) ''files'' \<noteq> []"
    and "\<not> list_all (\<lambda>f. filename f = []) (getlist (form_files req) ''files'')"
  shows "upload_files_flash w db req =
     (case build_flash_entries w 0 (getlist (form_files req) ''files'') of
        Inl e \<Rightarrow> ((500, JsonFailed e), db, [])
      | Inr data_entries \<Rightarrow>
          (case db_connect w of
             Some e \<Rightarrow> ((500, JsonFailed e), db, [])
           | None \<Rightarrow>
               (case insert_all w db data_entries of
                  Inl (e, tx) \<Rightarrow> ((500, JsonFailed e), abandon db tx, [])
                | Inr (tx, inserted) \<Rightarrow>
                    (case db_commit w of
                       Some e \<Rightarrow> ((500, JsonFailed e), abandon db tx, [])
                     | None \<Rightarrow>
                         (case publish w (length (getlist (form_files req) ''files'')) inserted of
                            (Inl e, calls) \<Rightarrow> ((500, JsonFailed e), tx, calls)
                          | (Inr sheet_url, calls) \<Rightarrow>
                              ((200, published_body sheet_url), tx, calls))))))"
  using assms files_field_present [OF assms(2)] by (simp add: upload_files_flash_def Let_def)

text \<open>
  A \<^verbatim>\<open>POST\<close> is never answered with 200 and never changes the rows of the store: a
  request that passes the checks stops at the first id it reads, if not before.
\<close>

lemma upload_files_post:
  assumes "req_method req = POST"
  shows "fst (fst (upload_files w db req)) \<noteq> 200 \<and> rows (snd (upload_files w db req)) = rows db"
proof (cases "getlist (form_files req) ''files'' \<noteq> []
    \<and> \<not> list_all (\<lambda>f. filename f = []) (getlist (form_files req) ''files'')")
  case False
  with assms show ?thesis by (auto simp: upload_files_def Let_def)
next
  case True
  note r = upload_valid_files [OF assms, of w db] 
  show ?thesis
  proof (cases "build_upload_entries w 0 (getlist (form_files req) ''files'')")
    case (Inl e)
    with True r show ?thesis by simp
  next
    case (Inr es)
    from build_upload_entries_length [OF Inr] True have "es \<noteq> []" by auto
    from insert_all_nonempty_fails [OF this, of w db] obtain err tx'
      where "insert_all w db es = Inl (err, tx')" by blast
    with True r Inr show ?thesis by (cases "db_connect w") simp_all
  qed
qed

lemma upload_files_flash_post:
  assumes "req_method req = POST"
  shows "fst (fst (upload_files_flash w db req)) \<noteq> 200
       \<and> rows (fst (snd (upload_files_flash w db req))) = rows db
       \<and> snd (snd (upload_files_flash w db req)) = []"
proof (cases "getlist (form_files req) ''files'' \<noteq> []
    \<and> \<not> list_all (\<lambda>f. filename f = []) (getlist (form_files req) ''files'')")
  case False
  with assms show ?thesis by (auto simp: upload_files_flash_def Let_def)
next
  case True
  note r = flash_valid_files [OF assms, of w db]
  show ?thesis
  proof (cases "build_flash_entries w 0 (getlist (form_files req) ''files'')")
    case (Inl e)
    with True r show ?thesis by simp
  next
    case (Inr es)
    from build_flash_entries_length [OF Inr] True have "es \<noteq> []" by auto
    from insert_all_nonempty_fails [OF this, of w db] obtain err tx'
      where "insert_all w db es = Inl (err, tx')" by blast
    with True r Inr show ?thesis by (cases "db_connect w") simp_all
  qed
qed

section \<open>An upload of one file\<close>









section \<open>Entries at creation\<close>

lemma py_eq_int [simp]: "py_eq (PInt i) (PInt j) \<longleftrightarrow> i = j"
  by (simp add: py_eq_def float_eq_def)

lemma py_eq_float [simp]: "py_eq (PFloat a) (PFloat b) \<longleftrightarrow> a \<noteq> NaN \<and> a = b"
  by (auto simp: py_eq_def float_eq_def)

lemma upload_entry_value:
  "upload_entry d =
     Inr \<lparr>DATE = PStr d, PARTICULARS = PStr ''Processed File'', Voucher_BillNo = PStr ''N/A'',
          RECEIPTS_Quantity = PInt 0, RECEIPTS_Amount = PFloat (Fin 0),
          ISSUED_Quantity = PInt 0, ISSUED_Amount = PFloat (Fin 0),
          BALANCE_Quantity = PInt 0, BALANCE_Amount = PFloat (Fin 0)\<rparr>"
  by (simp add: upload_entry_def)

lemma upload_entry_opening: "upload_entry d = Inr e \<Longrightarrow> opening_balance e"
  by (auto simp: upload_entry_value opening_balance_def)

lemma flash_entry_fields:
  assumes "flash_entry d g = Inr e"
  shows "\<exists>p b q a. bindE (py_get g ''quantity'' (PInt 0)) py_int = Inr q
           \<and> bindE (py_get g ''amount'' (PFloat (Fin 0))) py_float = Inr a
           \<and> e = \<lparr>DATE = PStr d, PARTICULARS = p, Voucher_BillNo = b,
                  RECEIPTS_Quantity = PInt q, RECEIPTS_Amount = PFloat a,
                  ISSUED_Quantity = PInt 0, ISSUED_Amount = PFloat (Fin 0),
                  BALANCE_Quantity = PInt q, BALANCE_Amount = PFloat a\<rparr>"
proof -
  from assms obtain p b rq ra bq ba where
    rq: "bindE (py_get g ''quantity'' (PInt 0)) py_int = Inr rq"
    and ra: "bindE (py_get g ''amount'' (PFloat (Fin 0))) py_float = Inr ra"
    and bq: "bindE (py_get g ''quantity'' (PInt 0)) py_int = Inr bq"
    and ba: "bindE (py_get g ''amount'' (PFloat (Fin 0))) py_float = Inr ba"
    and e: "e = \<lparr>DATE = PStr d, PARTICULARS = p, Voucher_BillNo = b,
          RECEIPTS_Quantity = PInt rq, RECEIPTS_Amount = PFloat ra,
          ISSUED_Quantity = PInt 0, ISSUED_Amount = PFloat (Fin 0),
          BALANCE_Quantity = PInt bq, BALANCE_Amount = PFloat ba\<rparr>"
    unfolding flash_entry_def bindE_eq_Inr by blast
  from rq bq have "rq = bq" by simp
  moreover from ra ba have "ra = ba" by simp
  ultimately show ?thesis using rq ra e by blast
qed

lemma flash_entry_carried:
  assumes "flash_entry d g = Inr e"
  shows "balance_carried e"
    and "RECEIPTS_Amount e = PFloat NaN
           \<longleftrightarrow> bindE (py_get g ''amount'' (PFloat (Fin 0))) py_float = Inr NaN"
  using flash_entry_fields [OF assms] by (auto simp: balance_carried_def)

lemma build_upload_entries_total:
  "\<exists>es. build_upload_entries w k fs = Inr es \<and> length es = length fs \<and> list_all opening_balance es"
proof (induction fs arbitrary: k)
  case Nil
  show ?case by simp
next
  case (Cons f fs)
  from Cons [of "Suc k"] obtain es where
    "build_upload_entries w (Suc k) fs = Inr es" "length es = length fs" "list_all opening_balance es"
    by blast
  moreover obtain e where "upload_entry (today w k) = Inr e" "opening_balance e"
    using upload_entry_opening [of "today w k"] by (simp add: upload_entry_value)
  ultimately show ?case by simp
qed

lemma build_flash_entries_carried:
  "build_flash_entries w k fs = Inr es \<Longrightarrow> length es = length fs \<and> list_all balance_carried es"
proof (induction fs arbitrary: k es)
  case Nil
  then show ?case by simp
next
  case (Cons f fs)
  then show ?case
    by (auto simp: bindE_eq_Inr dest: flash_entry_carried(1))
qed

lemma loads_nan: \<open>json_loads ''{"amount": NaN}'' = Inr (PDict [(''amount'', PFloat NaN)])\<close>
  by code_simp

lemma nan_entry_built:
  \<open>build_flash_entries echo_world 0
      [\<lparr>filename = ''bill.txt'', mimetype = ''text/plain'', content = ''{"amount": NaN}''\<rparr>]
     = Inr [nan_entry]\<close>
  by code_simp

text \<open>
  A reply whose amount is nan, which the decoder accepts: the entry built for the file
  carries nan as its receipts amount and as its balance amount, and the two are not
  \<^verbatim>\<open>==\<close>.
\<close>

theorem nan_amount_counterexample:
  \<open>json_loads ''{"amount": NaN}'' = Inr (PDict [(''amount'', PFloat NaN)])
   \<and> build_flash_entries echo_world 0
        [\<lparr>filename = ''bill.txt'', mimetype = ''text/plain'', content = ''{"amount": NaN}''\<rparr>]
      = Inr [nan_entry]
   \<and> RECEIPTS_Amount nan_entry = PFloat NaN \<and> BALANCE_Amount nan_entry = PFloat NaN
   \<and> \<not> py_eq (BALANCE_Amount nan_entry) (RECEIPTS_Amount nan_entry)
   \<and> \<not> opening_balance nan_entry\<close>
  by (intro conjI, rule loads_nan, rule nan_entry_built)
     (simp_all add: nan_entry_def opening_balance_def)

text \<open>
  Claim C3, as the code has it. The entry \<^verbatim>\<open>/upload\<close> builds for a file always has
  \<^verbatim>\<open>BALANCE_Quantity == RECEIPTS_Quantity\<close>, \<^verbatim>\<open>BALANCE_Amount == RECEIPTS_Amount\<close>,
  \<^verbatim>\<open>ISSUED_Quantity == 0\<close> and \<^verbatim>\<open>ISSUED_Amount == 0.0\<close>. The entry
  \<^verbatim>\<open>/upload-flash\<close> builds has the same quantities and issued columns, and a balance
  amount that is the value of the receipts amount; the two amounts are \<^verbatim>\<open>==\<close> exactly
  when that value is not nan, and it is nan exactly when \<^verbatim>\<open>float\<close> of the reply's amount
  is. Each endpoint builds one such entry per file.
\<close>

theorem entries_at_creation:
  "(\<exists>e. upload_entry d = Inr e \<and> opening_balance e)
   \<and> (flash_entry d g = Inr e' \<longrightarrow>
        py_eq (BALANCE_Quantity e') (RECEIPTS_Quantity e')
        \<and> BALANCE_Amount e' = RECEIPTS_Amount e'
        \<and> (py_eq (BALANCE_Amount e') (RECEIPTS_Amount e') \<longleftrightarrow> RECEIPTS_Amount e' \<noteq> PFloat NaN)
        \<and> (RECEIPTS_Amount e' = PFloat NaN
             \<longleftrightarrow> bindE (py_get g ''amount'' (PFloat (Fin 0))) py_float = Inr NaN)
        \<and> py_eq (ISSUED_Quantity e') (PInt 0) \<and> py_eq (ISSUED_Amount e') (PFloat (Fin 0)))
   \<and> (\<exists>es. build_upload_entries w k fs = Inr es \<and> length es = length fs
          \<and> list_all opening_balance es)
   \<and> (build_flash_entries w k fs = Inr es' \<longrightarrow>
        length es' = length fs \<and> list_all balance_carried es')"
proof (intro conjI impI)
  show "\<exists>e. upload_entry d = Inr e \<and> opening_balance e"
    using upload_entry_opening [of d] by (simp add: upload_entry_value)
  show "\<exists>es. build_upload_entries w k fs = Inr es \<and> length es = length fs
          \<and> list_all opening_balance es"
    by (rule build_upload_entries_total)
next
  assume "build_flash_entries w k fs = Inr es'"
  from build_flash_entries_carried [OF this]
  show "length es' = length fs" "list_all balance_carried es'" by simp_all
next
  assume f: "flash_entry d g = Inr e'"
  from flash_entry_carried(1) [OF f]
  show "py_eq (BALANCE_Quantity e') (RECEIPTS_Quantity e')"
    "BALANCE_Amount e' = RECEIPTS_Amount e'"
    "py_eq (BALANCE_Amount e') (RECEIPTS_Amount e') \<longleftrightarrow> RECEIPTS_Amount e' \<noteq> PFloat NaN"
    "py_eq (ISSUED_Quantity e') (PInt 0)" "py_eq (ISSUED_Amount e') (PFloat (Fin 0))"
    unfolding balance_carried_def by blast+
  from flash_entry_carried(2) [OF f]
  show "RECEIPTS_Amount e' = PFloat NaN
             \<longleftrightarrow> bindE (py_get g ''amount'' (PFloat (Fin 0))) py_float = Inr NaN" .
qed

lemma pen_entry:
  "flash_entry ''2024-01-01'' pen_reply =
     Inr \<lparr>DATE = PStr ''2024-01-01'', PARTICULARS = PStr ''Pen'', Voucher_BillNo = PStr ''B1'',
          RECEIPTS_Quantity = PInt 5, RECEIPTS_Amount = PFloat (Fin 12.5),
          ISSUED_Quantity = PInt 0, ISSUED_Amount = PFloat (Fin 0),
          BALANCE_Quantity = PInt 5, BALANCE_Amount = PFloat (Fin 12.5)\<rparr>"
  by (simp add: flash_entry_def pen_reply_def)

lemma two_files_entries:
  "build_flash_entries echo_world 0 (getlist (form_files two_files) ''files'')
     = Inr [sample_entry ''some prose'' 0,
            \<lparr>DATE = PStr ''2024-01-01'', PARTICULARS = PStr ''Processed File'',
             Voucher_BillNo = PStr ''N/A'',
             RECEIPTS_Quantity = PInt 3, RECEIPTS_Amount = PFloat (Fin 2),
             ISSUED_Quantity = PInt 0, ISSUED_Amount = PFloat (Fin 0),
             BALANCE_Quantity = PInt 3, BALANCE_Amount = PFloat (Fin 2)\<rparr>]"
  "length (getlist (form_files two_files) ''files'') = 2"
  by code_simp+

theorem entries_at_creation_witness:
  "(\<exists>e. flash_entry ''2024-01-01'' pen_reply = Inr e
        \<and> RECEIPTS_Quantity e = PInt 5 \<and> py_eq (BALANCE_Quantity e) (RECEIPTS_Quantity e)
        \<and> RECEIPTS_Amount e = PFloat (Fin 12.5) \<and> py_eq (BALANCE_Amount e) (RECEIPTS_Amount e)
        \<and> py_eq (ISSUED_Quantity e) (PInt 0) \<and> py_eq (ISSUED_Amount e) (PFloat (Fin 0)))
   \<and> (\<exists>es. build_flash_entries echo_world 0 (getlist (form_files two_files) ''files'') = Inr es
          \<and> length es = 2 \<and> list_all balance_carried es)
   \<and> (\<exists>es. build_upload_entries echo_world 0 (getlist (form_files two_files) ''files'') = Inr es
          \<and> length es = 2 \<and> list_all opening_balance es)"
  using pen_entry two_files_entries
    entries_at_creation [of "''2024-01-01''" pen_reply
      "\<lparr>DATE = PStr ''2024-01-01'', PARTICULARS = PStr ''Pen'', Voucher_BillNo = PStr ''B1'',
          RECEIPTS_Quantity = PInt 5, RECEIPTS_Amount = PFloat (Fin 12.5),
          ISSUED_Quantity = PInt 0, ISSUED_Amount = PFloat (Fin 0),
          BALANCE_Quantity = PInt 5, BALANCE_Amount = PFloat (Fin 12.5)\<rparr>"
      echo_world 0 "getlist (form_files two_files) ''files''"
      "[sample_entry ''some prose'' 0,
            \<lparr>DATE = PStr ''2024-01-01'', PARTICULARS = PStr ''Processed File'',
             Voucher_BillNo = PStr ''N/A'',
             RECEIPTS_Quantity = PInt 3, RECEIPTS_Amount = PFloat (Fin 2),
             ISSUED_Quantity = PInt 0, ISSUED_Amount = PFloat (Fin 0),
             BALANCE_Quantity = PInt 3, BALANCE_Amount = PFloat (Fin 2)\<rparr>]"]
  by simp

section \<open>Replies that raise\<close>

















section \<open>Bulk updates\<close>

lemma set_columns_id [simp]: "Entry_ID (set_columns e r) = Entry_ID r"
  by (simp add: set_columns_def)

lemma sql_update_ids [simp]:
  "map Entry_ID (rows (sql_update tx e i)) = map Entry_ID (rows tx)"
  by (simp add: sql_update_def comp_def)

lemma sql_update_unmatched:
  assumes "\<forall>k \<in> set (map Entry_ID (rows tx)). \<not> sql_eq_id i k"
  shows "sql_update tx e i = tx"
proof -
  from assms have "map (\<lambda>r. if sql_eq_id i (Entry_ID r) then set_columns e r else r) (rows tx) = rows tx"
    by (intro map_idI) auto
  then show ?thesis by (simp add: sql_update_def)
qed

lemma update_all_ids:
  "update_all w tx us = Inr tx' \<Longrightarrow> map Entry_ID (rows tx') = map Entry_ID (rows tx)"
proof (induction us arbitrary: tx)
  case Nil
  then show ?case by simp
next
  case (Cons u us)
  from Cons.prems obtain e i where "update_all w (sql_update tx e i) us = Inr tx'"
    by (auto split: sum.splits option.splits)
  from Cons.IH [OF this] show ?case by simp
qed

lemma update_all_append:
  "update_all w tx (us1 @ us2) = bindE (update_all w tx us1) (\<lambda>tx'. update_all w tx' us2)"
  by (induction us1 arbitrary: tx) (auto split: sum.splits option.splits)

lemma update_all_skip:
  assumes "update_stmt u = Inr (e, i)" and "sql_id_check i = None"
    and "db_refuses w (UPDATE e i) = None"
    and "\<forall>k \<in> set (map Entry_ID (rows tx)). \<not> sql_eq_id i k"
  shows "update_all w tx (us1 @ u # us2) = update_all w tx (us1 @ us2)"
proof (cases "update_all w tx us1")
  case (Inl err)
  then show ?thesis by (simp add: update_all_append)
next
  case (Inr tx')
  from update_all_ids [OF Inr] assms(4)
  have "\<forall>k \<in> set (map Entry_ID (rows tx')). \<not> sql_eq_id i k" by simp
  then have "sql_update tx' e i = tx'" by (rule sql_update_unmatched)
  with assms(1-3) have "update_all w tx' (u # us2) = update_all w tx' us2" by simp
  with Inr show ?thesis by (simp add: update_all_append)
qed

text \<open>
  A record that raises: by a missing key, by an id the key cannot be compared with, or by
  a statement the database refuses.
\<close>

lemma update_all_raises:
  assumes "(\<exists>err. update_stmt u = Inl err)
         \<or> (\<exists>e i err. update_stmt u = Inr (e, i) \<and> sql_id_check i = Some err)
         \<or> (\<exists>e i err. update_stmt u = Inr (e, i) \<and> db_refuses w (UPDATE e i) = Some err)"
  shows "\<exists>err. update_all w tx (us1 @ u # us2) = Inl err"
proof (cases "update_all w tx us1")
  case (Inl err)
  then show ?thesis by (simp add: update_all_append)
next
  case (Inr tx')
  from assms have "\<exists>err. update_all w tx' (u # us2) = Inl err"
    by (auto split: option.splits)
  with Inr show ?thesis by (simp add: update_all_append)
qed

lemma update_data_outcome:
  "(\<exists>updates us tx. rj = Inr updates \<and> db_connect w = None \<and> py_iter updates = Inr us
       \<and> update_all w db us = Inr tx \<and> db_commit w = None
       \<and> update_data w db rj = ((200, message_body ''Data updated''), tx))
   \<or> (\<exists>e. update_data w db rj = ((500, JsonError e), db))"
proof (cases rj)
  case (Inl e)
  then show ?thesis by (simp add: update_data_def)
next
  case (Inr updates)
  show ?thesis
  proof (cases "db_connect w")
    case (Some e)
    with Inr show ?thesis by (simp add: update_data_def)
  next
    case None
    show ?thesis
    proof (cases "py_iter updates")
      case (Inl e)
      with Inr None show ?thesis by (simp add: update_data_def)
    next
      case us: (Inr us)
      show ?thesis
      proof (cases "update_all w db us")
        case (Inl e)
        with Inr None us show ?thesis by (simp add: update_data_def)
      next
        case tx: (Inr tx)
        with Inr None us show ?thesis
          by (cases "db_commit w") (simp_all add: update_data_def)
      qed
    qed
  qed
qed

lemma update_data_failed_statement:
  assumes "py_iter updates = Inr us" and "update_all w db us = Inl e"
  shows "fst (fst (update_data w db (Inr updates))) = 500 \<and> snd (update_data w db (Inr updates)) = db"
  using assms by (cases "db_connect w") (simp_all add: update_data_def)

lemma update_data_committed:
  assumes "py_iter updates = Inr us" and "db_connect w = None"
    and "update_all w db us = Inr tx" and "db_commit w = None"
  shows "update_data w db (Inr updates) = ((200, message_body ''Data updated''), tx)"
  using assms by (simp add: update_data_def)


lemma sample_updates:
  "update_stmt (update_record (PInt 99) ''ghost'') = Inr (updated_entry ''ghost'', PInt 99)"
  "sql_id_check (PInt 99) = None"
  "db_refuses echo_world (UPDATE (updated_entry ''ghost'') (PInt 99)) = None"
  "\<forall>r \<in> set (rows sample_store). \<not> sql_eq_id (PInt 99) (Entry_ID r)"
  "update_data echo_world sample_store
     (Inr (PList [update_record (PInt 7) ''ink, blue'', update_record (PInt 3) ''pen, red'']))
   = ((200, message_body ''Data updated''),
      \<lparr>rows = [with_id (updated_entry ''ink, blue'') 7, with_id (updated_entry ''pen, red'') 3],
       next_id = 8\<rparr>)"
  "update_stmt (update_record (PStr ''abc'') ''ghost'') = Inr (updated_entry ''ghost'', PStr ''abc'')"
  "sql_id_check (PStr ''abc'') = Some (DBError ''invalid input syntax for type integer'')"
  by code_simp+

lemma sample_raising_updates:
  "map Entry_ID (rows sample_store) = [7, 3]"
  "\<not> sql_eq_id (PStr ''abc'') 7" "\<not> sql_eq_id (PStr ''abc'') 3"
  "update_data echo_world sample_store
       (Inr (PList [update_record (PInt 7) ''ink, blue'', update_record (PStr ''abc'') ''ghost'',
                    update_record (PInt 3) ''pen, red'']))
     = ((500, JsonError (DBError ''invalid input syntax for type integer'')), sample_store)"
  "update_data echo_world sample_store
       (Inr (PList [update_record (PInt 7) ''ink, blue'', PDict [(''Entry_ID'', PInt 99)],
                    update_record (PInt 3) ''pen, red'']))
     = ((500, JsonError (KeyError ''DATE'')), sample_store)"
  by code_simp+

text \<open>
  Two records whose id matches no row and that raise all the same: one whose id is the
  string \<^verbatim>\<open>'abc'\<close>, which PostgreSQL cannot read as an integer, and one with the id 99
  and no other key. Each stands between two records for the rows 7 and 3; the request is
  answered with 500 and the store is as it was, the update of row 7 included.
\<close>

theorem unmatched_update_raises_counterexample:
  "update_stmt (update_record (PStr ''abc'') ''ghost'') = Inr (updated_entry ''ghost'', PStr ''abc'')
   \<and> map Entry_ID (rows sample_store) = [7, 3]
   \<and> \<not> sql_eq_id (PStr ''abc'') 7 \<and> \<not> sql_eq_id (PStr ''abc'') 3
   \<and> update_data echo_world sample_store
       (Inr (PList [update_record (PInt 7) ''ink, blue'', update_record (PStr ''abc'') ''ghost'',
                    update_record (PInt 3) ''pen, red'']))
     = ((500, JsonError (DBError ''invalid input syntax for type integer'')), sample_store)
   \<and> update_data echo_world sample_store
       (Inr (PList [update_record (PInt 7) ''ink, blue'', PDict [(''Entry_ID'', PInt 99)],
                    update_record (PInt 3) ''pen, red'']))
     = ((500, JsonError (KeyError ''DATE'')), sample_store)"
  using sample_updates(6) sample_raising_updates by simp

text \<open>
  Claim C6, as the code has it. An update record whose \<^verbatim>\<open>Entry_ID\<close> matches no row is
  a silent no-op when it raises nothing: when it has all ten keys, its id is a value the
  key can be compared with, and the database accepts its statement. The request then
  answers and leaves the store exactly as the request without that record does, so the
  records around it are applied as before; alone in a request it is answered with 200 and
  the store is unchanged. A record that lacks a key, whose id the key cannot be compared
  with, or whose statement the database refuses, raises: the request is answered with 500
  and the store is as it was.
\<close>

theorem unmatched_update_is_noop:
  "(update_stmt u = Inr (e, i) \<and> sql_id_check i = None \<and> db_refuses w (UPDATE e i) = None
      \<and> (\<forall>r \<in> set (rows db). \<not> sql_eq_id i (Entry_ID r)) \<longrightarrow>
        sql_update db e i = db
        \<and> update_data w db (Inr (PList (us1 @ u # us2))) = update_data w db (Inr (PList (us1 @ us2)))
        \<and> (db_connect w = None \<and> db_commit w = None \<longrightarrow>
             update_data w db (Inr (PList [u])) = ((200, message_body ''Data updated''), db)))
   \<and> ((\<exists>err. update_stmt u = Inl err)
        \<or> (\<exists>e i err. update_stmt u = Inr (e, i) \<and> sql_id_check i = Some err)
        \<or> (\<exists>e i err. update_stmt u = Inr (e, i) \<and> db_refuses w (UPDATE e i) = Some err) \<longrightarrow>
        fst (fst (update_data w db (Inr (PList (us1 @ u # us2))))) = 500
        \<and> snd (update_data w db (Inr (PList (us1 @ u # us2)))) = db)"
proof (intro conjI impI)
  assume h: "update_stmt u = Inr (e, i) \<and> sql_id_check i = None \<and> db_refuses w (UPDATE e i) = None
      \<and> (\<forall>r \<in> set (rows db). \<not> sql_eq_id i (Entry_ID r))"
  then have un: "\<forall>k \<in> set (map Entry_ID (rows db)). \<not> sql_eq_id i k" by simp
  then show a: "sql_update db e i = db" by (rule sql_update_unmatched)
  have b: "update_all w db (us1 @ u # us2) = update_all w db (us1 @ us2)"
    using h un by (intro update_all_skip [where e = e and i = i]) simp_all
  show "update_data w db (Inr (PList (us1 @ u # us2))) = update_data w db (Inr (PList (us1 @ us2)))"
    by (cases "db_connect w") (simp_all add: update_data_def b)
  assume "db_connect w = None \<and> db_commit w = None"
  moreover have "update_all w db [u] = Inr db" using h a by simp
  ultimately show "update_data w db (Inr (PList [u])) = ((200, message_body ''Data updated''), db)"
    by (simp add: update_data_def del: update_all.simps)
next
  assume "(\<exists>err. update_stmt u = Inl err)
        \<or> (\<exists>e i err. update_stmt u = Inr (e, i) \<and> sql_id_check i = Some err)
        \<or> (\<exists>e i err. update_stmt u = Inr (e, i) \<and> db_refuses w (UPDATE e i) = Some err)"
  from update_all_raises [OF this, of db us1 us2] obtain err where
    "update_all w db (us1 @ u # us2) = Inl err" ..
  from update_data_failed_statement [OF _ this, of "PList (us1 @ u # us2)"]
  show "fst (fst (update_data w db (Inr (PList (us1 @ u # us2))))) = 500"
    "snd (update_data w db (Inr (PList (us1 @ u # us2)))) = db"
    by simp_all
qed

theorem unmatched_update_is_noop_witness:
  "update_stmt (update_record (PInt 99) ''ghost'') = Inr (updated_entry ''ghost'', PInt 99)
   \<and> sql_id_check (PInt 99) = None
   \<and> db_refuses echo_world (UPDATE (updated_entry ''ghost'') (PInt 99)) = None
   \<and> update_data echo_world sample_store
       (Inr (PList [update_record (PInt 7) ''ink, blue'', update_record (PInt 99) ''ghost'',
                    update_record (PInt 3) ''pen, red'']))
     = ((200, message_body ''Data updated''),
        \<lparr>rows = [with_id (updated_entry ''ink, blue'') 7, with_id (updated_entry ''pen, red'') 3],
         next_id = 8\<rparr>)
   \<and> update_data echo_world sample_store (Inr (PList [update_record (PInt 99) ''ghost'']))
     = ((200, message_body ''Data updated''), sample_store)
   \<and> update_stmt (update_record (PStr ''abc'') ''ghost'') = Inr (updated_entry ''ghost'', PStr ''abc'')
   \<and> sql_id_check (PStr ''abc'') = Some (DBError ''invalid input syntax for type integer'')
   \<and> fst (fst (update_data echo_world sample_store
       (Inr (PList [update_record (PInt 7) ''ink, blue'', update_record (PStr ''abc'') ''ghost'',
                    update_record (PInt 3) ''pen, red''])))) = 500
   \<and> snd (update_data echo_world sample_store
       (Inr (PList [update_record (PInt 7) ''ink, blue'', update_record (PStr ''abc'') ''ghost'',
                    update_record (PInt 3) ''pen, red'']))) = sample_store"
proof -
  note A = unmatched_update_is_noop [of "update_record (PInt 99) ''ghost''" "updated_entry ''ghost''"
      "PInt 99" echo_world sample_store "[update_record (PInt 7) ''ink, blue'']"
      "[update_record (PInt 3) ''pen, red'']"]
  note B = unmatched_update_is_noop [of "update_record (PStr ''abc'') ''ghost''" "updated_entry ''ghost''"
      "PInt 99" echo_world sample_store "[update_record (PInt 7) ''ink, blue'']"
      "[update_record (PInt 3) ''pen, red'']"]
  have c: "db_connect echo_world = None \<and> db_commit echo_world = None"
    by (simp add: echo_world_def)
  from A sample_updates(1-5) c
  have a: "update_data echo_world sample_store
       (Inr (PList [update_record (PInt 7) ''ink, blue'', update_record (PInt 99) ''ghost'',
                    update_record (PInt 3) ''pen, red'']))
     = ((200, message_body ''Data updated''),
        \<lparr>rows = [with_id (updated_entry ''ink, blue'') 7, with_id (updated_entry ''pen, red'') 3],
         next_id = 8\<rparr>)"
    "update_data echo_world sample_store (Inr (PList [update_record (PInt 99) ''ghost'']))
     = ((200, message_body ''Data updated''), sample_store)"
    by simp_all
  from sample_updates(6,7)
  have "\<exists>e i err. update_stmt (update_record (PStr ''abc'') ''ghost'') = Inr (e, i)
      \<and> sql_id_check i = Some err"
    by blast
  with B
  have b: "fst (fst (update_data echo_world sample_store
       (Inr (PList [update_record (PInt 7) ''ink, blue'', update_record (PStr ''abc'') ''ghost'',
                    update_record (PInt 3) ''pen, red''])))) = 500"
    "snd (update_data echo_world sample_store
       (Inr (PList [update_record (PInt 7) ''ink, blue'', update_record (PStr ''abc'') ''ghost'',
                    update_record (PInt 3) ''pen, red'']))) = sample_store"
    by simp_all
  from a b sample_updates(1-3,6,7) show ?thesis by simp
qed

section \<open>One commit per bulk update\<close>

text \<open>
  Claim C10. \<^verbatim>\<open>/update\<close> commits once, after the last statement. When every statement
  of a request is executed and the commit succeeds, the request is answered with 200 and
  the store is the result of all its updates. When a statement raises, the request is
  answered with 500 and the store is as it was: none of the updates before that statement
  is kept. There is no third outcome: a request is answered with 200 only in the first
  case, and otherwise with 500 and the store unchanged.
\<close>

theorem update_commit_all_or_nothing:
  "(py_iter updates = Inr us \<and> db_connect w = None \<and> update_all w db us = Inr tx
      \<and> db_commit w = None \<longrightarrow>
      update_data w db (Inr updates) = ((200, message_body ''Data updated''), tx))
   \<and> (py_iter updates = Inr us \<and> update_all w db us = Inl e \<longrightarrow>
      fst (fst (update_data w db (Inr updates))) = 500 \<and> snd (update_data w db (Inr updates)) = db)
   \<and> (fst (fst (update_data w db rj)) = 200 \<longrightarrow>
        (\<exists>body us'. rj = Inr body \<and> py_iter body = Inr us'
           \<and> update_all w db us' = Inr (snd (update_data w db rj))))
   \<and> (fst (fst (update_data w db rj)) \<noteq> 200 \<longrightarrow>
        fst (fst (update_data w db rj)) = 500 \<and> snd (update_data w db rj) = db)"
proof (intro conjI impI)
  assume "py_iter updates = Inr us \<and> db_connect w = None \<and> update_all w db us = Inr tx
      \<and> db_commit w = None"
  then show "update_data w db (Inr updates) = ((200, message_body ''Data updated''), tx)"
    by (intro update_data_committed [where us = us]) simp_all
next
  assume "py_iter updates = Inr us \<and> update_all w db us = Inl e"
  then show "fst (fst (update_data w db (Inr updates))) = 500" "snd (update_data w db (Inr updates)) = db"
    using update_data_failed_statement [of updates us w db e] by simp_all
next
  assume "fst (fst (update_data w db rj)) = 200"
  with update_data_outcome [of rj w db]
  show "\<exists>body us'. rj = Inr body \<and> py_iter body = Inr us'
           \<and> update_all w db us' = Inr (snd (update_data w db rj))"
    by auto
next
  assume "fst (fst (update_data w db rj)) \<noteq> 200"
  with update_data_outcome [of rj w db]
  show "fst (fst (update_data w db rj)) = 500" "snd (update_data w db rj) = db"
    by auto
qed

lemma sample_update_runs:
  "py_iter (PList [update_record (PInt 7) ''ink, blue'', partial_record])
     = Inr [update_record (PInt 7) ''ink, blue'', partial_record]"
  "update_all echo_world sample_store [update_record (PInt 7) ''ink, blue'']
     = Inr \<lparr>rows = [with_id (updated_entry ''ink, blue'') 7, with_id (sample_entry ''pen'' 5) 3],
            next_id = 8\<rparr>"
  "update_all echo_world sample_store [update_record (PInt 7) ''ink, blue'', partial_record]
     = Inl (KeyError ''PARTICULARS'')"
  "py_iter (PList [update_record (PInt 7) ''ink, blue'', update_record (PInt 3) ''pen, red''])
     = Inr [update_record (PInt 7) ''ink, blue'', update_record (PInt 3) ''pen, red'']"
  "update_all echo_world sample_store
      [update_record (PInt 7) ''ink, blue'', update_record (PInt 3) ''pen, red'']
     = Inr \<lparr>rows = [with_id (updated_entry ''ink, blue'') 7, with_id (updated_entry ''pen, red'') 3],
            next_id = 8\<rparr>"
  "db_connect echo_world = None" "db_commit echo_world = None"
  by code_simp+

theorem update_commit_all_or_nothing_witness:
  "update_all echo_world sample_store
      [update_record (PInt 7) ''ink, blue'', update_record (PInt 3) ''pen, red'']
     = Inr \<lparr>rows = [with_id (updated_entry ''ink, blue'') 7, with_id (updated_entry ''pen, red'') 3],
            next_id = 8\<rparr>
   \<and> update_data echo_world sample_store
        (Inr (PList [update_record (PInt 7) ''ink, blue'', update_record (PInt 3) ''pen, red'']))
     = ((200, message_body ''Data updated''),
        \<lparr>rows = [with_id (updated_entry ''ink, blue'') 7, with_id (updated_entry ''pen, red'') 3],
         next_id = 8\<rparr>)
   \<and> update_all echo_world sample_store [update_record (PInt 7) ''ink, blue'']
     = Inr \<lparr>rows = [with_id (updated_entry ''ink, blue'') 7, with_id (sample_entry ''pen'' 5) 3],
            next_id = 8\<rparr>
   \<and> update_all echo_world sample_store [update_record (PInt 7) ''ink, blue'', partial_record]
     = Inl (KeyError ''PARTICULARS'')
   \<and> fst (fst (update_data echo_world sample_store
        (Inr (PList [update_record (PInt 7) ''ink, blue'', partial_record])))) = 500
   \<and> snd (update_data echo_world sample_store
        (Inr (PList [update_record (PInt 7) ''ink, blue'', partial_record]))) = sample_store"
proof -
  note A = update_commit_all_or_nothing
    [of "PList [update_record (PInt 7) ''ink, blue'', update_record (PInt 3) ''pen, red'']"
      "[update_record (PInt 7) ''ink, blue'', update_record (PInt 3) ''pen, red'']"
      echo_world sample_store
      "\<lparr>rows = [with_id (updated_entry ''ink, blue'') 7, with_id (updated_entry ''pen, red'') 3],
         next_id = 8\<rparr>"]
  note B = update_commit_all_or_nothing
    [of "PList [update_record (PInt 7) ''ink, blue'', partial_record]"
      "[update_record (PInt 7) ''ink, blue'', partial_record]" echo_world sample_store _
      "KeyError ''PARTICULARS''"]
  from A sample_update_runs(4-7)
  have a: "update_data echo_world sample_store
        (Inr (PList [update_record (PInt 7) ''ink, blue'', update_record (PInt 3) ''pen, red'']))
     = ((200, message_body ''Data updated''),
        \<lparr>rows = [with_id (updated_entry ''ink, blue'') 7, with_id (updated_entry ''pen, red'') 3],
         next_id = 8\<rparr>)"
    by blast
  from B sample_update_runs(1,3)
  have b: "fst (fst (update_data echo_world sample_store
        (Inr (PList [update_record (PInt 7) ''ink, blue'', partial_record])))) = 500"
    "snd (update_data echo_world sample_store
        (Inr (PList [update_record (PInt 7) ''ink, blue'', partial_record]))) = sample_store"
    by blast+
  from a b sample_update_runs(2,3,5) show ?thesis by simp
qed

section \<open>Failures in the upload-and-publish flow\<close>








end
